theory Spec2Isabelle
  imports Complex_Main
begin

section \<open>The on/off value of the MQTT binding (OnOffValue.java)\<close>

text \<open>
  Strings are lists of 8-bit code units. The class keeps the current value in the field
  \<open>boolValue\<close> and the immutable configuration in \<open>onValue\<close>, \<open>offValue\<close>, \<open>inverse\<close>
  and \<open>receivesOnly\<close>. A thrown \<open>IllegalArgumentException\<close> is the left summand of the
  result; the right summand carries the returned value and the object after the call.
\<close>

datatype OnOffType = ON | OFF

datatype OpenClosedType = OPEN | CLOSED

text \<open>
  The commands \<open>update(Command)\<close> tells apart by \<open>instanceof\<close>; every other class of
  command is \<open>UnsupportedCommand\<close> with its class name.
\<close>

datatype Command =
    OnOffCommand OnOffType
  | OpenClosedCommand OpenClosedType
  | StringCommand string
  | UnsupportedCommand string

datatype error = IllegalArgumentException string

record OnOffValue =
  boolValue :: OnOffType
  onValue :: string
  offValue :: string
  inverse :: bool
  receivesOnly :: bool

text \<open>The three constructors and the factory; a \<open>null\<close> argument is \<open>None\<close>.\<close>

definition OnOffValue_default :: OnOffValue where
  "OnOffValue_default =
     \<lparr>boolValue = OFF, onValue = ''ON'', offValue = ''OFF'', inverse = False,
      receivesOnly = False\<rparr>"

definition OnOffValue_private ::
    "string option \<Rightarrow> string option \<Rightarrow> bool option \<Rightarrow> bool \<Rightarrow> OnOffValue" where
  "OnOffValue_private onV offV isInversedOnOff recvOnly =
     \<lparr>boolValue = OFF,
      onValue = (case onV of None \<Rightarrow> ''ON'' | Some s \<Rightarrow> s),
      offValue = (case offV of None \<Rightarrow> ''OFF'' | Some s \<Rightarrow> s),
      inverse = (case isInversedOnOff of None \<Rightarrow> False | Some b \<Rightarrow> b),
      receivesOnly = recvOnly\<rparr>"

definition OnOffValue_new :: "string option \<Rightarrow> string option \<Rightarrow> bool option \<Rightarrow> OnOffValue" where
  "OnOffValue_new onV offV isInversedOnOff = OnOffValue_private onV offV isInversedOnOff False"

definition createReceiveOnly :: "string option \<Rightarrow> string option \<Rightarrow> bool option \<Rightarrow> OnOffValue" where
  "createReceiveOnly onV offV isInversedOnOff = OnOffValue_private onV offV isInversedOnOff True"

text \<open>
  \<open>String.toUpperCase\<close> on the letters a to z; every other code unit is left as it is.
  (No other code unit below 256 is mapped to a letter of \<open>ON\<close> or \<open>OFF\<close>, so the two
  comparisons of \<open>update(String)\<close> come out as in Java.)
\<close>

definition toUpperCase_char :: "char \<Rightarrow> char" where
  "toUpperCase_char c =
     (case map_of (zip ''abcdefghijklmnopqrstuvwxyz'' ''ABCDEFGHIJKLMNOPQRSTUVWXYZ'') c of
        Some u \<Rightarrow> u
      | None \<Rightarrow> c)"

definition toUpperCase :: "string \<Rightarrow> string" where
  "toUpperCase s = map toUpperCase_char s"

text \<open>
  The expression \<open>inverse ? (boolValue == ON ? OFF : ON) : boolValue\<close>, which the class
  writes after every classification.
\<close>

definition applyInverse :: "bool \<Rightarrow> OnOffType \<Rightarrow> OnOffType" where
  "applyInverse flag b = (if flag then (if b = ON then OFF else ON) else b)"

text \<open>\<open>update(String updatedValue)\<close>: the decoder of a wire string.\<close>

definition update_String :: "OnOffValue \<Rightarrow> string \<Rightarrow> error + (OnOffType \<times> OnOffValue)" where
  "update_String v updatedValue =
     (if onValue v = updatedValue \<or> ''ON'' = toUpperCase updatedValue \<or> ''1'' = updatedValue
      then (let b = applyInverse (inverse v) ON in Inr (b, v\<lparr>boolValue := b\<rparr>))
      else if offValue v = updatedValue \<or> ''OFF'' = toUpperCase updatedValue
                \<or> ''0'' = updatedValue
      then (let b = applyInverse (inverse v) OFF in Inr (b, v\<lparr>boolValue := b\<rparr>))
      else Inl (IllegalArgumentException
                  (''Didn't recognise the on/off value '' @ updatedValue)))"

text \<open>\<open>update(Command command)\<close>: the encoder of a command, returning the wire string.\<close>

definition update_Command :: "OnOffValue \<Rightarrow> Command \<Rightarrow> error + (string \<times> OnOffValue)" where
  "update_Command v command =
     (case command of
        OnOffCommand c \<Rightarrow>
          (let b = applyInverse (inverse v) c
           in Inr (if b = ON then onValue v else offValue v, v\<lparr>boolValue := b\<rparr>))
      | OpenClosedCommand c \<Rightarrow>
          (let b = applyInverse (inverse v) (if c = OPEN then ON else OFF)
           in Inr (if b = ON then onValue v else offValue v, v\<lparr>boolValue := b\<rparr>))
      | StringCommand s \<Rightarrow>
          (case update_String v s of
             Inl e \<Rightarrow> Inl e
           | Inr (b, v') \<Rightarrow> Inr (if b = ON then onValue v' else offValue v', v'))
      | UnsupportedCommand cls \<Rightarrow>
          Inl (IllegalArgumentException
                 (''Type '' @ cls @ '' not supported for OnOffValue'')))"

text \<open>
  The two functions of the codec as the specification names them: \<open>decode\<close> is the value
  \<open>update(String)\<close> returns, \<open>encode\<close> the string \<open>update(Command)\<close> returns for an
  \<open>OnOffType\<close> command.
\<close>

definition decode_bool :: "OnOffValue \<Rightarrow> string \<Rightarrow> error + OnOffType" where
  "decode_bool v s = map_sum id fst (update_String v s)"

definition encode_bool :: "OnOffValue \<Rightarrow> OnOffType \<Rightarrow> error + string" where
  "encode_bool v b = map_sum id fst (update_Command v (OnOffCommand b))"

text \<open>The strings that \<open>toUpperCase\<close> sends to \<open>ON\<close> and to \<open>OFF\<close>.\<close>

definition spellings_ON :: "string set" where
  "spellings_ON = {''ON'', ''On'', ''oN'', ''on''}"

definition spellings_OFF :: "string set" where
  "spellings_OFF =
     {''OFF'', ''OFf'', ''OfF'', ''Off'', ''oFF'', ''oFf'', ''ofF'', ''off''}"

text \<open>Encoding a value and decoding the string that comes out, on one object.\<close>

definition decode_encode :: "OnOffValue \<Rightarrow> OnOffType \<Rightarrow> error + OnOffType" where
  "decode_encode v b =
     (case update_Command v (OnOffCommand b) of
        Inl e \<Rightarrow> Inl e
      | Inr (wire, v') \<Rightarrow> decode_bool v' wire)"

section \<open>JavaScript values of the control page (controllers.control.js)\<close>

text \<open>
  A JavaScript number is a real number, \<open>NaN\<close> or an infinity: the values are the exact ones,
  the rounding of a literal to a binary64 number is not part of the model, and the two zeros
  are one. The values the controllers handle are numbers and strings.
\<close>

datatype number = Finite real | NaN | PosInfinity | NegInfinity

datatype jsval = Num number | Str string

subsection \<open>\<open>Number(string)\<close>, \<open>isNaN\<close> and \<open>parseInt\<close>\<close>

text \<open>The white space and line terminators of ECMAScript among the code units below 256.\<close>

definition isWhiteSpace :: "char \<Rightarrow> bool" where
  "isWhiteSpace c =
     (c \<in> set [CHR 0x09, CHR 0x0A, CHR 0x0B, CHR 0x0C, CHR 0x0D, CHR 0x20, CHR 0xA0])"

definition trim :: "string \<Rightarrow> string" where
  "trim s = rev (dropWhile isWhiteSpace (rev (dropWhile isWhiteSpace s)))"

definition hexDigitValue :: "char \<Rightarrow> nat option" where
  "hexDigitValue c =
     map_of (zip ''0123456789abcdefABCDEF''
               [0, 1, 2, 3, 4, 5, 6, 7, 8, 9, 10, 11, 12, 13, 14, 15, 10, 11, 12, 13, 14, 15]) c"

definition radixDigit :: "nat \<Rightarrow> char \<Rightarrow> nat option" where
  "radixDigit R c =
     (case hexDigitValue c of
        Some d \<Rightarrow> if d < R then Some d else None
      | None \<Rightarrow> None)"

text \<open>The digits of the longest prefix of a string that consists of digits of the radix.\<close>

fun radixPrefix :: "nat \<Rightarrow> string \<Rightarrow> nat list" where
  "radixPrefix R [] = []"
| "radixPrefix R (c # cs) =
     (case radixDigit R c of Some d \<Rightarrow> d # radixPrefix R cs | None \<Rightarrow> [])"

definition digitsVal :: "nat \<Rightarrow> nat list \<Rightarrow> nat" where
  "digitsVal R ds = foldl (\<lambda>a d. a * R + d) 0 ds"

definition allDigits :: "nat \<Rightarrow> string \<Rightarrow> bool" where
  "allDigits R s = (length (radixPrefix R s) = length s)"

text \<open>
  The grammar of \<open>StringNumericLiteral\<close>: an optional sign and \<open>Infinity\<close> or a decimal
  literal (digits, an optional point with digits on at least one side, an optional
  exponent), or an unsigned hexadecimal, octal or binary integer; white space around it is
  dropped and the empty string is zero. Everything else is \<open>NaN\<close>.
\<close>

definition SignedInteger :: "string \<Rightarrow> int option" where
  "SignedInteger s =
     (let neg = (take 1 s = ''-'');
          ds = (if take 1 s = ''-'' \<or> take 1 s = ''+'' then drop 1 s else s)
      in if ds \<noteq> [] \<and> allDigits 10 ds
         then Some (if neg then - int (digitsVal 10 (radixPrefix 10 ds))
                    else int (digitsVal 10 (radixPrefix 10 ds)))
         else None)"

definition isExponentIndicator :: "char \<Rightarrow> bool" where
  "isExponentIndicator c = (c = CHR ''e'' \<or> c = CHR ''E'')"

definition StrUnsignedDecimalLiteral :: "string \<Rightarrow> real option" where
  "StrUnsignedDecimalLiteral s =
     (let m = takeWhile (\<lambda>c. \<not> isExponentIndicator c) s;
          r = dropWhile (\<lambda>c. \<not> isExponentIndicator c) s;
          ip = takeWhile (\<lambda>c. c \<noteq> CHR ''.'') m;
          fp = drop (Suc (length ip)) m;
          mant = real (digitsVal 10 (radixPrefix 10 ip))
                 + real (digitsVal 10 (radixPrefix 10 fp)) / 10 ^ length fp
      in if allDigits 10 ip \<and> allDigits 10 fp \<and> (ip \<noteq> [] \<or> fp \<noteq> [])
         then (if r = [] then Some mant
               else (case SignedInteger (tl r) of
                       None \<Rightarrow> None
                     | Some e \<Rightarrow>
                         Some (if e < 0 then mant / 10 ^ nat (- e) else mant * 10 ^ nat e)))
         else None)"

definition NonDecimalIntegerLiteral :: "string \<Rightarrow> nat option" where
  "NonDecimalIntegerLiteral s =
     (let R = (if take 2 s = ''0x'' \<or> take 2 s = ''0X'' then 16
               else if take 2 s = ''0o'' \<or> take 2 s = ''0O'' then 8
               else if take 2 s = ''0b'' \<or> take 2 s = ''0B'' then 2
               else 0);
          ds = drop 2 s
      in if R \<noteq> 0 \<and> ds \<noteq> [] \<and> allDigits R ds
         then Some (digitsVal R (radixPrefix R ds))
         else None)"

definition StringToNumber :: "string \<Rightarrow> number" where
  "StringToNumber s =
     (let t = trim s;
          neg = (take 1 t = ''-'');
          u = (if take 1 t = ''-'' \<or> take 1 t = ''+'' then drop 1 t else t)
      in if t = [] then Finite 0
         else (case NonDecimalIntegerLiteral t of
                 Some n \<Rightarrow> Finite (real n)
               | None \<Rightarrow>
                   if u = ''Infinity'' then (if neg then NegInfinity else PosInfinity)
                   else (case StrUnsignedDecimalLiteral u of
                           None \<Rightarrow> NaN
                         | Some x \<Rightarrow> Finite (if neg then - x else x))))"

definition ToNumber :: "jsval \<Rightarrow> number" where
  "ToNumber v = (case v of Num n \<Rightarrow> n | Str s \<Rightarrow> StringToNumber s)"

definition isNaN :: "jsval \<Rightarrow> bool" where
  "isNaN v = (ToNumber v = NaN)"

text \<open>
  \<open>parseInt(string)\<close> with no radix: leading white space and a sign are dropped, a prefix
  \<open>0x\<close> selects radix 16, and the longest prefix of digits is the value; no digit at all
  is \<open>NaN\<close>.
\<close>

definition parseInt :: "string \<Rightarrow> number" where
  "parseInt s =
     (let S0 = dropWhile isWhiteSpace s;
          neg = (take 1 S0 = ''-'');
          S1 = (if take 1 S0 = ''-'' \<or> take 1 S0 = ''+'' then drop 1 S0 else S0);
          hex = (take 2 S1 = ''0x'' \<or> take 2 S1 = ''0X'');
          R = (if hex then 16 else 10);
          Z = radixPrefix R (if hex then drop 2 S1 else S1)
      in if Z = [] then NaN
         else Finite (if neg then - real (digitsVal R Z) else real (digitsVal R Z)))"

subsection \<open>\<open>Math.ceil\<close> and the string of a whole number\<close>

definition Math_ceil :: "jsval \<Rightarrow> number" where
  "Math_ceil v =
     (case ToNumber v of
        Finite x \<Rightarrow> Finite (of_int \<lceil>x\<rceil>)
      | n \<Rightarrow> n)"

definition digit_char :: "nat \<Rightarrow> char" where
  "digit_char d = ''0123456789'' ! d"

fun NatToString :: "nat \<Rightarrow> string" where
  "NatToString n =
     (if n < 10 then [digit_char n] else NatToString (n div 10) @ [digit_char (n mod 10)])"

declare NatToString.simps [simp del]

definition IntToString :: "int \<Rightarrow> string" where
  "IntToString i = (if i < 0 then CHR ''-'' # NatToString (nat (- i)) else NatToString (nat i))"

text \<open>
  The string of a number that has no fractional part, which is what \<open>Math.ceil\<close> returns:
  its decimal digits. (JavaScript writes a magnitude of \<open>10\<^sup>2\<^sup>1\<close> and more with an
  exponent; the channels of a color are far below.)
\<close>

definition WholeToString :: "number \<Rightarrow> string" where
  "WholeToString n =
     (case n of
        Finite x \<Rightarrow> IntToString \<lfloor>x\<rfloor>
      | NaN \<Rightarrow> ''NaN''
      | PosInfinity \<Rightarrow> ''Infinity''
      | NegInfinity \<Rightarrow> ''-Infinity'')"

text \<open>A string of decimal digits only.\<close>

definition isDecimal :: "string \<Rightarrow> bool" where
  "isDecimal s = list_all (\<lambda>c. radixDigit 10 c \<noteq> None) s"

text \<open>
  What may follow the whole part of a component of a color state: nothing, or a point and
  anything but a comma.
\<close>

definition fractionTail :: "string \<Rightarrow> bool" where
  "fractionTail t = ((t = [] \<or> take 1 t = ''.'') \<and> CHR '','' \<notin> set t)"

subsection \<open>\<open>split\<close> and \<open>indexOf\<close> with a separator of one character\<close>

fun split :: "char \<Rightarrow> string \<Rightarrow> string list" where
  "split sep [] = [[]]"
| "split sep (c # cs) =
     (if c = sep then [] # split sep cs
      else (case split sep cs of
              p # ps \<Rightarrow> (c # p) # ps
            | [] \<Rightarrow> [[c]]))"

definition indexOf :: "char \<Rightarrow> string \<Rightarrow> int" where
  "indexOf c s = (if c \<in> set s then int (length (takeWhile (\<lambda>x. x \<noteq> c) s)) else - 1)"

section \<open>Number items in \<open>getItems\<close> (ControlController)\<close>

text \<open>
  The fields of an item that the number branch of \<open>getItems\<close> reads and writes; an absent
  field is \<open>None\<close>. The state arrives as a string and becomes a number when it parses.
\<close>

record Item =
  itemType :: "string option"
  groupType :: "string option"
  itemState :: jsval
  itemUnit :: "string option"

definition startsWith :: "string \<Rightarrow> string \<Rightarrow> bool" where
  "startsWith s p = (take (length p) s = p)"

text \<open>
  The guard \<open>(item.type && (item.type.indexOf("Number") === 0 || item.type ==
  "Rollershutter")) || (item.groupType && item.groupType.indexOf("Number") === 0)\<close>.
\<close>

definition isNumberItem :: "Item \<Rightarrow> bool" where
  "isNumberItem item =
     ((case itemType item of
         None \<Rightarrow> False
       | Some t \<Rightarrow> t \<noteq> [] \<and> (startsWith t ''Number'' \<or> t = ''Rollershutter''))
      \<or> (case groupType item of
            None \<Rightarrow> False
          | Some g \<Rightarrow> g \<noteq> [] \<and> startsWith g ''Number''))"

text \<open>
  The number branch of the loop body of \<open>getItems\<close>. A state that is a number already
  comes back as it is: its string has no space and parses to the same number.
\<close>

definition getItems_number :: "Item \<Rightarrow> Item" where
  "getItems_number item =
     (if isNumberItem item
      then (case itemState item of
              Num n \<Rightarrow> item
            | Str state0 \<Rightarrow>
                (let i = indexOf CHR '' '' state0;
                     item1 = (if i > 0 then item\<lparr>itemUnit := Some (drop (nat i + 1) state0)\<rparr>
                              else item);
                     numeric = (if i > 0 then take (nat i) state0 else state0);
                     parsedValue = StringToNumber numeric
                 in if parsedValue \<noteq> NaN then item1\<lparr>itemState := Num parsedValue\<rparr>
                    else item1))
      else item)"

section \<open>Timers and events\<close>

text \<open>
  \<open>$timeout(fn, delay)\<close> puts a timer into the queue of the browser and returns its handle;
  \<open>$timeout.cancel\<close> removes it. The clock \<open>now\<close> counts milliseconds
  (\<open>new Date().getTime()\<close>). The queue is ordered by the time a timer is due and, among
  timers due together, by the order of the calls. A timer runs at the time it is due.
  The variables of a controller are \<open>vars\<close>; a callback is a value of a datatype of the
  controller, run by the controller's \<open>fire\<close> function. No callback of these controllers
  reads the clock or starts a timer: \<open>fire\<close> gets the time only to stamp what is sent.
\<close>

record 'cb timer =
  timer_id :: nat
  due :: nat
  callback :: 'cb

record ('v, 'cb) world =
  now :: nat
  nextId :: nat
  timers :: "'cb timer list"
  vars :: 'v

fun insert_timer :: "'cb timer \<Rightarrow> 'cb timer list \<Rightarrow> 'cb timer list" where
  "insert_timer t [] = [t]"
| "insert_timer t (u # us) = (if due u \<le> due t then u # insert_timer t us else t # u # us)"

definition timeout :: "'cb \<Rightarrow> nat \<Rightarrow> ('v, 'cb) world \<Rightarrow> nat \<times> ('v, 'cb) world" where
  "timeout cb delay w =
     (nextId w,
      w\<lparr>nextId := Suc (nextId w),
        timers := insert_timer \<lparr>timer_id = nextId w, due = now w + delay, callback = cb\<rparr>
                    (timers w)\<rparr>)"

definition timeout_cancel :: "nat \<Rightarrow> ('v, 'cb) world \<Rightarrow> ('v, 'cb) world" where
  "timeout_cancel i w = w\<lparr>timers := filter (\<lambda>t. timer_id t \<noteq> i) (timers w)\<rparr>"

text \<open>Running, in order, the timers that are due up to a time limit.\<close>

fun run_due ::
    "(nat \<Rightarrow> 'cb \<Rightarrow> 'v \<Rightarrow> 'v) \<Rightarrow> nat \<Rightarrow> 'cb timer list \<Rightarrow> 'v \<Rightarrow> 'cb timer list \<times> 'v" where
  "run_due fire limit [] v = ([], v)"
| "run_due fire limit (t # ts) v =
     (if due t \<le> limit then run_due fire limit ts (fire (due t) (callback t) v)
      else (t # ts, v))"

text \<open>
  Time passing: \<open>wait fire d\<close> lets \<open>d\<close> milliseconds go by and runs the timers due in
  between, those due at the very end included.
\<close>

definition wait ::
    "(nat \<Rightarrow> 'cb \<Rightarrow> 'v \<Rightarrow> 'v) \<Rightarrow> nat \<Rightarrow> ('v, 'cb) world \<Rightarrow> ('v, 'cb) world" where
  "wait fire d w =
     (case run_due fire (now w + d) (timers w) (vars w) of
        (ts, v) \<Rightarrow> w\<lparr>now := now w + d, timers := ts, vars := v\<rparr>)"

text \<open>
  A session is a list of events: a call of a handler of the controller by the user
  interface, or time passing.
\<close>

datatype 'e event = User 'e | Wait nat

definition step ::
    "('e \<Rightarrow> ('v, 'cb) world \<Rightarrow> ('v, 'cb) world) \<Rightarrow> (nat \<Rightarrow> 'cb \<Rightarrow> 'v \<Rightarrow> 'v) \<Rightarrow>
     ('v, 'cb) world \<Rightarrow> 'e event \<Rightarrow> ('v, 'cb) world" where
  "step handle fire w e = (case e of User u \<Rightarrow> handle u w | Wait d \<Rightarrow> wait fire d w)"

definition run ::
    "('e \<Rightarrow> ('v, 'cb) world \<Rightarrow> ('v, 'cb) world) \<Rightarrow> (nat \<Rightarrow> 'cb \<Rightarrow> 'v \<Rightarrow> 'v) \<Rightarrow>
     'e event list \<Rightarrow> ('v, 'cb) world \<Rightarrow> ('v, 'cb) world" where
  "run handle fire es w = foldl (step handle fire) w es"

text \<open>The time a session takes and the number of calls by the user in it.\<close>

fun duration :: "'e event list \<Rightarrow> nat" where
  "duration [] = 0"
| "duration (User u # es) = duration es"
| "duration (Wait d # es) = d + duration es"

fun submissions :: "'e event list \<Rightarrow> nat" where
  "submissions [] = 0"
| "submissions (User u # es) = Suc (submissions es)"
| "submissions (Wait d # es) = submissions es"




section \<open>ItemController\<close>

text \<open>
  The scope every item controller inherits: the state of the item and, as the trace of
  \<open>itemService.sendCommand\<close>, the commands sent with the time of each call.
  \<open>$scope.sendCommand(command, updateState)\<close> is called with one argument by the
  controllers below, so the state of the item is left as it is; the text of the state comes
  from a service outside this file and is not modelled.
\<close>

record ItemScope =
  item_state :: string
  sent :: "(nat \<times> jsval) list"

definition sendCommand :: "nat \<Rightarrow> jsval \<Rightarrow> 'a ItemScope_scheme \<Rightarrow> 'a ItemScope_scheme" where
  "sendCommand t command sc = sc\<lparr>sent := sent sc @ [(t, command)]\<rparr>"

text \<open>The first statement of the dimmer and color controllers.\<close>

definition undefToDash :: "string \<Rightarrow> string" where
  "undefToDash st = (if st = ''UNDEF'' \<or> st = ''NULL'' then ''-'' else st)"

text \<open>The comparison \<open>x > 0\<close> of a number.\<close>

definition greaterThanZero :: "number \<Rightarrow> bool" where
  "greaterThanZero n = (case n of Finite x \<Rightarrow> x > 0 | PosInfinity \<Rightarrow> True | _ \<Rightarrow> False)"

section \<open>DimmerItemController\<close>

text \<open>
  The scope holds \<open>state.switchState\<close>; the variable \<open>commandTimeout\<close> of the controller
  holds the handle of the armed timer or is \<open>undefined\<close> (\<open>None\<close>).
\<close>

record DimmerScope = ItemScope +
  switchState :: bool
  commandTimeout :: "nat option"

text \<open>The callback of the timer keeps the command of the call that started it.\<close>

datatype DimmerCallback = DimmerTimeout jsval

text \<open>The calls of the user interface: \<open>setSwitch(state)\<close> and \<open>setBrightness(brightness)\<close>.\<close>

datatype DimmerEvent = DimmerSetSwitch bool | DimmerSetBrightness jsval

text \<open>
  The watcher of \<open>item.state\<close>, which Angular calls once after the controller is set up
  and whenever the state changes: \<open>switchState = brightness > 0\<close>.
\<close>

definition Dimmer_watch :: "DimmerScope \<Rightarrow> DimmerScope" where
  "Dimmer_watch sc = sc\<lparr>switchState := greaterThanZero (StringToNumber (item_state sc))\<rparr>"

text \<open>The controller when it has been set up, at time 0 with no timer.\<close>

definition DimmerItemController :: "string \<Rightarrow> (DimmerScope, DimmerCallback) world" where
  "DimmerItemController st =
     \<lparr>now = 0, nextId = 0, timers = [],
      vars = Dimmer_watch
               \<lparr>item_state = undefToDash st, sent = [],
                switchState = greaterThanZero (parseInt (undefToDash st)),
                commandTimeout = None\<rparr>\<rparr>"

text \<open>
  The local function \<open>sendCommand\<close> of the controller: an armed timer is cancelled, and a
  timer of 300 ms is started whose callback sends the command.
\<close>

definition Dimmer_sendCommand ::
    "jsval \<Rightarrow> (DimmerScope, DimmerCallback) world \<Rightarrow> (DimmerScope, DimmerCallback) world" where
  "Dimmer_sendCommand command w =
     (let w1 = (case commandTimeout (vars w) of
                  Some i \<Rightarrow> timeout_cancel i w
                | None \<Rightarrow> w)
      in case timeout (DimmerTimeout command) 300 w1 of
           (i, w2) \<Rightarrow> w2\<lparr>vars := (vars w2)\<lparr>commandTimeout := Some i\<rparr>\<rparr>)"

definition Dimmer_setSwitch ::
    "bool \<Rightarrow> (DimmerScope, DimmerCallback) world \<Rightarrow> (DimmerScope, DimmerCallback) world" where
  "Dimmer_setSwitch on w = Dimmer_sendCommand (Str (if on then ''ON'' else ''OFF'')) w"

definition Dimmer_setBrightness ::
    "jsval \<Rightarrow> (DimmerScope, DimmerCallback) world \<Rightarrow> (DimmerScope, DimmerCallback) world" where
  "Dimmer_setBrightness x w =
     Dimmer_sendCommand x
       (w\<lparr>vars := (vars w)\<lparr>switchState := greaterThanZero (ToNumber x)\<rparr>\<rparr>)"

definition Dimmer_handle ::
    "DimmerEvent \<Rightarrow> (DimmerScope, DimmerCallback) world \<Rightarrow> (DimmerScope, DimmerCallback) world" where
  "Dimmer_handle e w =
     (case e of
        DimmerSetSwitch on \<Rightarrow> Dimmer_setSwitch on w
      | DimmerSetBrightness x \<Rightarrow> Dimmer_setBrightness x w)"

text \<open>
  The callback: \<open>$scope.sendCommand(command); commandTimeout = undefined\<close>.
\<close>

definition Dimmer_fire :: "nat \<Rightarrow> DimmerCallback \<Rightarrow> DimmerScope \<Rightarrow> DimmerScope" where
  "Dimmer_fire t cb sc =
     (case cb of DimmerTimeout command \<Rightarrow> (sendCommand t command sc)\<lparr>commandTimeout := None\<rparr>)"


section \<open>ColorItemController\<close>

text \<open>
  The object with the fields \<open>h\<close>, \<open>s\<close> and \<open>b\<close>. \<open>getStateAsObject\<close> fills them with
  numbers; \<open>setColor\<close> overwrites them with the values of the sliders or the string \<open>0\<close>.
\<close>

record stateObject =
  obj_h :: jsval
  obj_s :: jsval
  obj_b :: jsval

definition getStateAsObject :: "string \<Rightarrow> stateObject" where
  "getStateAsObject state =
     (let stateParts = split CHR '','' state
      in if length stateParts = 3
         then \<lparr>obj_h = Num (parseInt (stateParts ! 0)),
               obj_s = Num (parseInt (stateParts ! 1)),
               obj_b = Num (parseInt (stateParts ! 2))\<rparr>
         else \<lparr>obj_h = Num (Finite 0), obj_s = Num (Finite 0), obj_b = Num (Finite 0)\<rparr>)"

definition toState :: "stateObject \<Rightarrow> string" where
  "toState so =
     WholeToString (Math_ceil (obj_h so)) @ '','' @ WholeToString (Math_ceil (obj_s so)) @ '',''
       @ WholeToString (Math_ceil (obj_b so))"

record ColorScope = ItemScope +
  pending :: bool
  brightness :: jsval
  hue :: jsval
  saturation :: jsval

text \<open>The callbacks of the timers that \<open>setBrightness\<close> and \<open>setColor\<close> start.\<close>

datatype ColorCallback = BrightnessTimeout | ColorTimeout

text \<open>
  The calls of the user interface: \<open>setBrightness\<close>, \<open>setHue\<close> and \<open>setSaturation\<close>.
\<close>

datatype ColorEvent = ColorSetBrightness jsval | ColorSetHue jsval | ColorSetSaturation jsval

text \<open>The expression \<open>x ? x : 0\<close>: zero, \<open>NaN\<close> and the empty string are falsy.\<close>

definition orZero :: "jsval \<Rightarrow> jsval" where
  "orZero v =
     (case v of
        Num (Finite x) \<Rightarrow> if x = 0 then Num (Finite 0) else v
      | Num NaN \<Rightarrow> Num (Finite 0)
      | Num PosInfinity \<Rightarrow> v
      | Num NegInfinity \<Rightarrow> v
      | Str s \<Rightarrow> if s = [] then Num (Finite 0) else v)"

definition setStates :: "ColorScope \<Rightarrow> ColorScope" where
  "setStates sc =
     (let so = getStateAsObject (item_state sc)
      in sc\<lparr>hue := orZero (obj_h so), brightness := orZero (obj_b so),
            saturation := orZero (obj_s so)\<rparr>)"

text \<open>
  The controller when it has been set up, at time 0 with no timer: the state \<open>UNDEF\<close> or
  \<open>NULL\<close> is shown as \<open>-\<close>, \<open>pending\<close> is false and \<open>setStates()\<close> has run.
\<close>

definition ColorItemController :: "string \<Rightarrow> (ColorScope, ColorCallback) world" where
  "ColorItemController st =
     \<lparr>now = 0, nextId = 0, timers = [],
      vars = setStates \<lparr>item_state = undefToDash st, sent = [], pending = False,
                        brightness = Num (Finite 0), hue = Num (Finite 0),
                        saturation = Num (Finite 0)\<rparr>\<rparr>"

text \<open>The expression \<open>isNaN(x) ? '0' : x\<close>.\<close>

definition nanToZero :: "jsval \<Rightarrow> jsval" where
  "nanToZero v = (if isNaN v then Str ''0'' else v)"

text \<open>
  The two callbacks. The one of \<open>setColor\<close> assigns \<open>item.state\<close>; the watcher of
  \<open>item.state\<close> then calls \<open>setStates()\<close> in the same digest when the state has changed.
\<close>

definition Color_fire :: "nat \<Rightarrow> ColorCallback \<Rightarrow> ColorScope \<Rightarrow> ColorScope" where
  "Color_fire t cb sc =
     (case cb of
        BrightnessTimeout \<Rightarrow>
          (sendCommand t (nanToZero (brightness sc)) sc)\<lparr>pending := False\<rparr>
      | ColorTimeout \<Rightarrow>
          (let so0 = getStateAsObject (item_state sc);
               so1 = so0\<lparr>obj_b := nanToZero (brightness sc)\<rparr>;
               so2 = so1\<lparr>obj_s := nanToZero (saturation sc)\<rparr>;
               so3 = so2\<lparr>obj_h := nanToZero (hue sc)\<rparr>;
               uninitialized = (item_state sc = ''UNDEF'' \<or> item_state sc = ''NULL''
                                \<or> item_state sc = ''-'');
               so4 = (if uninitialized
                      then so3\<lparr>obj_b := Num (Finite 100), obj_s := Num (Finite 100)\<rparr>
                      else so3);
               sc1 = (if uninitialized
                      then sc\<lparr>brightness := obj_b so4, saturation := obj_s so4\<rparr>
                      else sc);
               sc2 = sc1\<lparr>item_state := toState so4\<rparr>;
               sc3 = (sendCommand t (Str (item_state sc2)) sc2)\<lparr>pending := False\<rparr>
           in if item_state sc3 \<noteq> item_state sc then setStates sc3 else sc3))"

text \<open>
  What \<open>setBrightness\<close> and \<open>setColor\<close> both do after storing the value: unless \<open>pending\<close>
  is set, start a timer of 300 ms with the callback and set \<open>pending\<close>.
\<close>

definition Color_arm ::
    "ColorCallback \<Rightarrow> (ColorScope, ColorCallback) world \<Rightarrow> (ColorScope, ColorCallback) world" where
  "Color_arm cb w =
     (if \<not> pending (vars w)
      then (case timeout cb 300 w of (i, w1) \<Rightarrow> w1\<lparr>vars := (vars w1)\<lparr>pending := True\<rparr>\<rparr>)
      else w)"

definition Color_setBrightness ::
    "jsval \<Rightarrow> (ColorScope, ColorCallback) world \<Rightarrow> (ColorScope, ColorCallback) world" where
  "Color_setBrightness x w = Color_arm BrightnessTimeout (w\<lparr>vars := (vars w)\<lparr>brightness := x\<rparr>\<rparr>)"

definition setColor ::
    "(ColorScope, ColorCallback) world \<Rightarrow> (ColorScope, ColorCallback) world" where
  "setColor w = Color_arm ColorTimeout w"

definition Color_setHue ::
    "jsval \<Rightarrow> (ColorScope, ColorCallback) world \<Rightarrow> (ColorScope, ColorCallback) world" where
  "Color_setHue x w = setColor (w\<lparr>vars := (vars w)\<lparr>hue := x\<rparr>\<rparr>)"

definition Color_setSaturation ::
    "jsval \<Rightarrow> (ColorScope, ColorCallback) world \<Rightarrow> (ColorScope, ColorCallback) world" where
  "Color_setSaturation x w = setColor (w\<lparr>vars := (vars w)\<lparr>saturation := x\<rparr>\<rparr>)"

definition Color_handle ::
    "ColorEvent \<Rightarrow> (ColorScope, ColorCallback) world \<Rightarrow> (ColorScope, ColorCallback) world" where
  "Color_handle e w =
     (case e of
        ColorSetBrightness x \<Rightarrow> Color_setBrightness x w
      | ColorSetHue x \<Rightarrow> Color_setHue x w
      | ColorSetSaturation x \<Rightarrow> Color_setSaturation x w)"

text \<open>
  What a call stores in the scope before it looks at \<open>pending\<close>, what a burst of calls has
  stored at its end, and the calls that are \<open>setBrightness\<close>.
\<close>

definition Color_store :: "ColorEvent \<Rightarrow> ColorScope \<Rightarrow> ColorScope" where
  "Color_store e sc =
     (case e of
        ColorSetBrightness x \<Rightarrow> sc\<lparr>brightness := x\<rparr>
      | ColorSetHue x \<Rightarrow> sc\<lparr>hue := x\<rparr>
      | ColorSetSaturation x \<Rightarrow> sc\<lparr>saturation := x\<rparr>)"

fun stored :: "ColorEvent \<Rightarrow> (nat \<times> ColorEvent) list \<Rightarrow> ColorScope \<Rightarrow> ColorScope" where
  "stored e [] sc = Color_store e sc"
| "stored e ((d, f) # rest) sc = stored f rest (Color_store e sc)"


section \<open>PlayerItemController\<close>

text \<open>
  The variables \<open>isInterrupted\<close> and \<open>time\<close> of the controller, shared by the previous and
  the next button. Both start \<open>undefined\<close>: \<open>isInterrupted\<close> is only ever read as
  \<open>!isInterrupted\<close>, so \<open>undefined\<close> is \<open>False\<close>; an undefined \<open>time\<close> is \<open>None\<close>, and
  \<open>time + 300 > newTime\<close> is then false.
\<close>

record PlayerScope = ItemScope +
  isInterrupted :: bool
  time :: "nat option"

text \<open>
  The callback of the timer a press starts, with the command it sends, and the callback
  that sends \<open>PLAY\<close>.
\<close>

datatype PlayerCallback = HoldTimeout string | PlayTimeout

datatype PlayerEvent = OnPrevDown | OnPrevUp | OnNextDown | OnNextUp

definition PlayerItemController :: "string \<Rightarrow> (PlayerScope, PlayerCallback) world" where
  "PlayerItemController st =
     \<lparr>now = 0, nextId = 0, timers = [],
      vars = \<lparr>item_state = st, sent = [], isInterrupted = False, time = None\<rparr>\<rparr>"

definition Player_fire :: "nat \<Rightarrow> PlayerCallback \<Rightarrow> PlayerScope \<Rightarrow> PlayerScope" where
  "Player_fire t cb sc =
     (case cb of
        HoldTimeout c \<Rightarrow> if \<not> isInterrupted sc then sendCommand t (Str c) sc else sc
      | PlayTimeout \<Rightarrow> sendCommand t (Str ''PLAY'') sc)"

text \<open>
  \<open>onPrevDown\<close> and \<open>onNextDown\<close> differ in the command of the timer only, \<open>onPrevUp\<close> and
  \<open>onNextUp\<close> in the command of the tap only. The timer without a delay that sends \<open>PLAY\<close>
  is due at once.
\<close>

definition onDown ::
    "string \<Rightarrow> (PlayerScope, PlayerCallback) world \<Rightarrow> (PlayerScope, PlayerCallback) world" where
  "onDown hold w =
     snd (timeout (HoldTimeout hold) 300
            (w\<lparr>vars := (vars w)\<lparr>isInterrupted := False, time := Some (now w)\<rparr>\<rparr>))"

definition onUp ::
    "string \<Rightarrow> (PlayerScope, PlayerCallback) world \<Rightarrow> (PlayerScope, PlayerCallback) world" where
  "onUp tap w =
     (let newTime = now w
      in if (case time (vars w) of Some t \<Rightarrow> t + 300 > newTime | None \<Rightarrow> False)
         then w\<lparr>vars := sendCommand newTime (Str tap) ((vars w)\<lparr>isInterrupted := True\<rparr>)\<rparr>
         else snd (timeout PlayTimeout 0 w))"

definition onPrevDown ::
    "(PlayerScope, PlayerCallback) world \<Rightarrow> (PlayerScope, PlayerCallback) world" where
  "onPrevDown w = onDown ''REWIND'' w"

definition onPrevUp ::
    "(PlayerScope, PlayerCallback) world \<Rightarrow> (PlayerScope, PlayerCallback) world" where
  "onPrevUp w = onUp ''PREVIOUS'' w"

definition onNextDown ::
    "(PlayerScope, PlayerCallback) world \<Rightarrow> (PlayerScope, PlayerCallback) world" where
  "onNextDown w = onDown ''FASTFORWARD'' w"

definition onNextUp ::
    "(PlayerScope, PlayerCallback) world \<Rightarrow> (PlayerScope, PlayerCallback) world" where
  "onNextUp w = onUp ''NEXT'' w"

definition Player_handle ::
    "PlayerEvent \<Rightarrow> (PlayerScope, PlayerCallback) world \<Rightarrow> (PlayerScope, PlayerCallback) world" where
  "Player_handle e w =
     (case e of
        OnPrevDown \<Rightarrow> onPrevDown w
      | OnPrevUp \<Rightarrow> onPrevUp w
      | OnNextDown \<Rightarrow> onNextDown w
      | OnNextUp \<Rightarrow> onNextUp w)"

section \<open>What a scheduler keeps\<close>

text \<open>Times of sending that are at least a window of 300 ms apart.\<close>

fun paced :: "nat list \<Rightarrow> bool" where
  "paced [] = True"
| "paced [t] = True"
| "paced (t # u # ts) = (t + 300 \<le> u \<and> paced (u # ts))"

text \<open>
  The state of a channel after \<open>n\<close> submissions: the commands sent are paced, lie in the
  past and are no more than one per 300 ms of the session; commands sent and timers
  armed are no more than the submissions; at most one timer is armed, it is due within
  the next 300 ms and a window after every command sent.
\<close>

definition schedule_ok :: "nat \<Rightarrow> ('a ItemScope_scheme, 'cb) world \<Rightarrow> bool" where
  "schedule_ok n w =
     (paced (map fst (sent (vars w)))
      \<and> list_all (\<lambda>t. t \<le> now w) (map fst (sent (vars w)))
      \<and> 300 * length (sent (vars w)) \<le> now w
      \<and> length (sent (vars w)) + length (timers w) \<le> n
      \<and> (case timers w of
            [] \<Rightarrow> True
          | [t] \<Rightarrow> now w < due t \<and> due t \<le> now w + 300
                   \<and> 300 * Suc (length (sent (vars w))) \<le> due t
                   \<and> list_all (\<lambda>u. u + 300 \<le> due t) (map fst (sent (vars w)))
          | _ \<Rightarrow> False))"

definition Dimmer_inv :: "nat \<Rightarrow> (DimmerScope, DimmerCallback) world \<Rightarrow> bool" where
  "Dimmer_inv n w =
     (schedule_ok n w
      \<and> commandTimeout (vars w) = (case timers w of [] \<Rightarrow> None | t # ts \<Rightarrow> Some (timer_id t)))"

definition Color_inv :: "nat \<Rightarrow> (ColorScope, ColorCallback) world \<Rightarrow> bool" where
  "Color_inv n w = (schedule_ok n w \<and> pending (vars w) = (timers w \<noteq> []))"

section \<open>Properties of the on/off value\<close>

lemma toUpperCase_char_O: "toUpperCase_char c = CHR ''O'' \<longleftrightarrow> c = CHR ''O'' \<or> c = CHR ''o''"
  by (simp add: toUpperCase_char_def)

lemma toUpperCase_char_N: "toUpperCase_char c = CHR ''N'' \<longleftrightarrow> c = CHR ''N'' \<or> c = CHR ''n''"
  by (simp add: toUpperCase_char_def)

lemma toUpperCase_char_F: "toUpperCase_char c = CHR ''F'' \<longleftrightarrow> c = CHR ''F'' \<or> c = CHR ''f''"
  by (simp add: toUpperCase_char_def)

lemma toUpperCase_ON: "''ON'' = toUpperCase s \<longleftrightarrow> s \<in> spellings_ON"
proof -
  have "''ON'' = toUpperCase s \<longleftrightarrow>
        (\<exists>a b. s = [a, b] \<and> toUpperCase_char a = CHR ''O'' \<and> toUpperCase_char b = CHR ''N'')"
    by (cases s; cases "tl s"; cases "tl (tl s)") (auto simp: toUpperCase_def)
  also have "\<dots> \<longleftrightarrow> s \<in> spellings_ON"
    by (auto simp: spellings_ON_def toUpperCase_char_O toUpperCase_char_N)
  finally show ?thesis .
qed

lemma toUpperCase_OFF: "''OFF'' = toUpperCase s \<longleftrightarrow> s \<in> spellings_OFF"
proof -
  have "''OFF'' = toUpperCase s \<longleftrightarrow>
        (\<exists>a b c. s = [a, b, c] \<and> toUpperCase_char a = CHR ''O''
            \<and> toUpperCase_char b = CHR ''F'' \<and> toUpperCase_char c = CHR ''F'')"
    by (cases s; cases "tl s"; cases "tl (tl s)"; cases "tl (tl (tl s))")
       (auto simp: toUpperCase_def)
  also have "\<dots> \<longleftrightarrow> s \<in> spellings_OFF"
    by (auto simp: spellings_OFF_def toUpperCase_char_O toUpperCase_char_F)
  finally show ?thesis .
qed

lemma decode_bool_cases:
  "decode_bool v s =
     (if s = onValue v \<or> s \<in> spellings_ON \<or> s = ''1''
      then Inr (applyInverse (inverse v) ON)
      else if s = offValue v \<or> s \<in> spellings_OFF \<or> s = ''0''
      then Inr (applyInverse (inverse v) OFF)
      else Inl (IllegalArgumentException (''Didn't recognise the on/off value '' @ s)))"
  by (auto simp: decode_bool_def update_String_def toUpperCase_ON toUpperCase_OFF Let_def)

text \<open>
  Claim C3, as the code has it. The wire string decodes to on when it is \<open>onValue\<close>
  exactly, \<open>ON\<close> in any mix of upper and lower case, or \<open>1\<close>; failing that, to off when
  it is \<open>offValue\<close> exactly, \<open>OFF\<close> in any mix of case, or \<open>0\<close>; every other string, and
  no string of these, fails with the exception. With \<open>inverse\<close> set the result is the
  negation of the result without it: the literals are classified as without the flag and
  the value is negated once, afterwards. (The configured literals are compared exactly,
  not ignoring case, and the on literals are tried first.)
\<close>

theorem decode_bool_classification:
  "decode_bool v s =
     (if s = onValue v \<or> s \<in> spellings_ON \<or> s = ''1''
      then Inr (applyInverse (inverse v) ON)
      else if s = offValue v \<or> s \<in> spellings_OFF \<or> s = ''0''
      then Inr (applyInverse (inverse v) OFF)
      else Inl (IllegalArgumentException (''Didn't recognise the on/off value '' @ s)))
   \<and> (isl (decode_bool v s) \<longleftrightarrow>
        s \<notin> {onValue v, offValue v, ''1'', ''0''} \<union> spellings_ON \<union> spellings_OFF)
   \<and> decode_bool (v\<lparr>inverse := True\<rparr>) s
       = map_sum id (applyInverse True) (decode_bool (v\<lparr>inverse := False\<rparr>) s)
   \<and> applyInverse True ON = OFF \<and> applyInverse True OFF = ON
   \<and> applyInverse False ON = ON \<and> applyInverse False OFF = OFF"
proof -
  have fail: "isl (decode_bool v s) \<longleftrightarrow>
        s \<notin> {onValue v, offValue v, ''1'', ''0''} \<union> spellings_ON \<union> spellings_OFF"
    unfolding decode_bool_cases by auto
  have inv: "decode_bool (v\<lparr>inverse := True\<rparr>) s
       = map_sum id (applyInverse True) (decode_bool (v\<lparr>inverse := False\<rparr>) s)"
    unfolding decode_bool_cases by (simp add: applyInverse_def)
  show ?thesis
    using decode_bool_cases [of v s] fail inv by (simp add: applyInverse_def)
qed

theorem decode_bool_classification_witness:
  "decode_bool \<lparr>boolValue = OFF, onValue = ''open'', offValue = ''closed'', inverse = True,
                 receivesOnly = False\<rparr> ''oN'' = Inr OFF
   \<and> decode_bool \<lparr>boolValue = OFF, onValue = ''open'', offValue = ''closed'', inverse = True,
                 receivesOnly = False\<rparr> ''closed'' = Inr ON
   \<and> isl (decode_bool \<lparr>boolValue = OFF, onValue = ''open'', offValue = ''closed'',
                       inverse = True, receivesOnly = False\<rparr> ''Closed'')"
  using decode_bool_classification
          [of "\<lparr>boolValue = OFF, onValue = ''open'', offValue = ''closed'', inverse = True,
                receivesOnly = False\<rparr>" "''oN''"]
        decode_bool_classification
          [of "\<lparr>boolValue = OFF, onValue = ''open'', offValue = ''closed'', inverse = True,
                receivesOnly = False\<rparr>" "''closed''"]
        decode_bool_classification
          [of "\<lparr>boolValue = OFF, onValue = ''open'', offValue = ''closed'', inverse = True,
                receivesOnly = False\<rparr>" "''Closed''"]
  by (simp add: spellings_ON_def spellings_OFF_def applyInverse_def)

text \<open>
  Claim C3 as stated does not hold: with the on literal \<open>yes\<close> the wire string \<open>YES\<close>, which
  is the literal but for its case, is not decoded to on; the decoder throws.
\<close>

theorem decode_bool_case_sensitive_counterexample:
  "decode_bool \<lparr>boolValue = OFF, onValue = ''yes'', offValue = ''no'', inverse = False,
                 receivesOnly = False\<rparr> ''YES''
     = Inl (IllegalArgumentException ''Didn't recognise the on/off value YES'')
   \<and> toUpperCase ''YES'' = toUpperCase ''yes''"
  by (simp add: decode_bool_def update_String_def toUpperCase_def toUpperCase_char_def)

text \<open>
  Claim C6, as the code has it. Without \<open>inverse\<close>, decoding the encoding of on gives on,
  for every pair of literals. With \<open>inverse\<close>, on is encoded as the off literal, and decoding
  gives on again exactly when the off literal is not classified as on: when it differs
  from the on literal, is not a spelling of \<open>ON\<close> and is not \<open>1\<close>. The negation is its own
  inverse.
\<close>

theorem decode_encode_ON:
  "(\<not> inverse v \<longrightarrow> decode_encode v ON = Inr ON)
   \<and> (inverse v \<longrightarrow>
        (decode_encode v ON = Inr ON \<longleftrightarrow>
           offValue v \<noteq> onValue v \<and> offValue v \<notin> spellings_ON \<and> offValue v \<noteq> ''1''))
   \<and> applyInverse (inverse v) (applyInverse (inverse v) ON) = ON"
  by (auto simp: decode_encode_def update_Command_def Let_def decode_bool_cases
        applyInverse_def)

theorem decode_encode_ON_witness:
  "decode_encode \<lparr>boolValue = OFF, onValue = ''open'', offValue = ''closed'', inverse = True,
                   receivesOnly = False\<rparr> ON = Inr ON
   \<and> decode_encode \<lparr>boolValue = OFF, onValue = ''open'', offValue = ''closed'',
                   inverse = False, receivesOnly = False\<rparr> ON = Inr ON"
  using decode_encode_ON
          [of "\<lparr>boolValue = OFF, onValue = ''open'', offValue = ''closed'', inverse = True,
                receivesOnly = False\<rparr>"]
        decode_encode_ON
          [of "\<lparr>boolValue = OFF, onValue = ''open'', offValue = ''closed'', inverse = False,
                receivesOnly = False\<rparr>"]
  by (simp add: spellings_ON_def)

text \<open>
  Claim C6 as stated does not hold for every descriptor: with the literals \<open>0\<close> for on and
  \<open>1\<close> for off and \<open>inverse\<close> set, on is encoded as \<open>1\<close>, which the decoder classifies as on
  (the generic literal \<open>1\<close> comes before the off literal) and then negates to off.
\<close>

theorem decode_encode_ON_counterexample:
  "decode_encode \<lparr>boolValue = OFF, onValue = ''0'', offValue = ''1'', inverse = True,
                   receivesOnly = False\<rparr> ON = Inr OFF"
  by (simp add: decode_encode_def update_Command_def decode_bool_def update_String_def
        applyInverse_def toUpperCase_def toUpperCase_char_def Let_def)


section \<open>Properties of the color codec\<close>

lemma split_nonempty: "split c s \<noteq> []"
  by (induction s) (auto split: list.splits)

lemma length_split: "length (split c s) = Suc (count_list s c)"
proof (induction s)
  case Nil
  then show ?case by simp
next
  case (Cons x xs)
  then show ?case
    by (cases "split c xs") (auto simp: split_nonempty)
qed

lemma split_no_sep: "c \<notin> set s \<Longrightarrow> split c s = [s]"
  by (induction s) auto

lemma split_append: "c \<notin> set a \<Longrightarrow> split c (a @ c # rest) = a # split c rest"
  by (induction a) (auto split: list.splits)

lemma split_three:
  assumes "c \<notin> set x" "c \<notin> set y" "c \<notin> set z"
  shows "split c (x @ c # y @ c # z) = [x, y, z]"
  using assms by (simp add: split_append split_no_sep)

lemma radixDigit_digit_char: "d < 10 \<Longrightarrow> radixDigit 10 (digit_char d) = Some d"
proof -
  assume "d < 10"
  then have "d \<in> {0, 1, 2, 3, 4, 5, 6, 7, 8, 9}"
    by auto
  then show ?thesis
    by (auto simp: radixDigit_def hexDigitValue_def digit_char_def)
qed

lemma radixPrefix_decimal:
  "isDecimal xs \<Longrightarrow>
     radixPrefix 10 (xs @ ys) = map (\<lambda>c. the (radixDigit 10 c)) xs @ radixPrefix 10 ys"
  by (induction xs) (auto simp: isDecimal_def)

lemma isDecimal_NatToString: "isDecimal (NatToString n)"
proof (induction n rule: NatToString.induct)
  case (1 n)
  show ?case
  proof (cases "n < 10")
    case True
    then show ?thesis
      by (simp add: NatToString.simps [of n] isDecimal_def radixDigit_digit_char)
  next
    case False
    with 1 show ?thesis
      by (simp add: NatToString.simps [of n] isDecimal_def radixDigit_digit_char)
  qed
qed

lemma digitsVal_snoc: "digitsVal R (ds @ [d]) = digitsVal R ds * R + d"
  by (simp add: digitsVal_def)

lemma digitsVal_NatToString:
  "digitsVal 10 (map (\<lambda>c. the (radixDigit 10 c)) (NatToString n)) = n"
proof (induction n rule: NatToString.induct)
  case (1 n)
  show ?case
  proof (cases "n < 10")
    case True
    then show ?thesis
      by (simp add: NatToString.simps [of n] radixDigit_digit_char digitsVal_def)
  next
    case False
    with 1 show ?thesis
      by (simp add: NatToString.simps [of n] radixDigit_digit_char digitsVal_snoc)
  qed
qed

lemma NatToString_nonempty: "NatToString n \<noteq> []"
  by (subst NatToString.simps) simp

lemma isDecimal_not_member:
  "isDecimal s \<Longrightarrow> radixDigit 10 c = None \<Longrightarrow> c \<notin> set s"
  by (auto simp: isDecimal_def list_all_iff)

lemma hd_NatToString_digit: "radixDigit 10 (hd (NatToString n)) \<noteq> None"
  using isDecimal_NatToString [of n] NatToString_nonempty [of n]
  by (cases "NatToString n") (auto simp: isDecimal_def)

lemma decimal_head:
  assumes "isDecimal s" "s \<noteq> []"
  shows "dropWhile isWhiteSpace s = s" "take (Suc 0) s \<noteq> ''-''"
    "take (Suc 0) s \<noteq> ''+''"
proof -
  obtain a t where s: "s = a # t" using assms(2) by (cases s) auto
  have a: "radixDigit 10 a \<noteq> None"
    using assms(1) by (auto simp: s isDecimal_def)
  show "dropWhile isWhiteSpace s = s"
    using a by (auto simp: s isWhiteSpace_def radixDigit_def hexDigitValue_def)
  show "take (Suc 0) s \<noteq> ''-''" "take (Suc 0) s \<noteq> ''+''"
    using a by (auto simp: s radixDigit_def hexDigitValue_def)
qed

lemma decimal_no_hex_prefix:
  assumes "isDecimal s"
  shows "take 2 s \<noteq> ''0x''" "take 2 s \<noteq> ''0X''"
proof -
  have "radixDigit 10 CHR ''x'' = None" "radixDigit 10 CHR ''X'' = None"
    by (simp_all add: radixDigit_def hexDigitValue_def)
  then have "CHR ''x'' \<notin> set s" "CHR ''X'' \<notin> set s"
    using isDecimal_not_member [OF assms] by blast+
  then have "CHR ''x'' \<notin> set (take 2 s)" "CHR ''X'' \<notin> set (take 2 s)"
    by (auto dest: in_set_takeD)
  then show "take 2 s \<noteq> ''0x''" "take 2 s \<noteq> ''0X''"
    by auto
qed

lemma parseInt_decimal:
  assumes "isDecimal s" "s \<noteq> []"
  shows "parseInt s = Finite (real (digitsVal 10 (map (\<lambda>c. the (radixDigit 10 c)) s)))"
proof -
  have Z: "radixPrefix 10 s = map (\<lambda>c. the (radixDigit 10 c)) s"
    using radixPrefix_decimal [OF assms(1), of "[]"] by simp
  show ?thesis
    unfolding parseInt_def Let_def
    by (simp add: decimal_head [OF assms] decimal_no_hex_prefix [OF assms(1)] Z assms(2))
qed

lemma parseInt_NatToString: "parseInt (NatToString n) = Finite (real n)"
  by (simp add: parseInt_decimal isDecimal_NatToString NatToString_nonempty digitsVal_NatToString)

lemma parseInt_minus_decimal:
  assumes "isDecimal s" "s \<noteq> []"
  shows "parseInt (CHR ''-'' # s)
         = Finite (- real (digitsVal 10 (map (\<lambda>c. the (radixDigit 10 c)) s)))"
proof -
  have Z: "radixPrefix 10 s = map (\<lambda>c. the (radixDigit 10 c)) s"
    using radixPrefix_decimal [OF assms(1), of "[]"] by simp
  have nws: "\<not> isWhiteSpace CHR ''-''" by (simp add: isWhiteSpace_def)
  show ?thesis
    unfolding parseInt_def Let_def
    by (simp add: nws decimal_no_hex_prefix [OF assms(1)] Z assms(2))
qed

lemma parseInt_IntToString: "parseInt (IntToString i) = Finite (of_int i)"
proof (cases "i < 0")
  case True
  then show ?thesis
    by (simp add: IntToString_def parseInt_minus_decimal isDecimal_NatToString
          NatToString_nonempty digitsVal_NatToString)
next
  case False
  then show ?thesis
    by (simp add: IntToString_def parseInt_NatToString)
qed

lemma comma_notin_IntToString: "CHR '','' \<notin> set (IntToString i)"
proof -
  have "radixDigit 10 CHR '','' = None"
    by (simp add: radixDigit_def hexDigitValue_def)
  then have "CHR '','' \<notin> set (NatToString n)" for n
    using isDecimal_not_member [OF isDecimal_NatToString] by blast
  then show ?thesis by (simp add: IntToString_def)
qed

lemma comma_notin_WholeToString: "CHR '','' \<notin> set (WholeToString n)"
  by (cases n) (simp_all add: WholeToString_def comma_notin_IntToString)

lemma getStateAsObject_three:
  assumes "CHR '','' \<notin> set x" "CHR '','' \<notin> set y" "CHR '','' \<notin> set z"
  shows "getStateAsObject (x @ '','' @ y @ '','' @ z)
         = \<lparr>obj_h = Num (parseInt x), obj_s = Num (parseInt y), obj_b = Num (parseInt z)\<rparr>"
  using split_three [OF assms] by (simp add: getStateAsObject_def)

lemma getStateAsObject_fallback:
  "count_list st CHR '','' \<noteq> 2 \<Longrightarrow>
   getStateAsObject st = \<lparr>obj_h = Num (Finite 0), obj_s = Num (Finite 0), obj_b = Num (Finite 0)\<rparr>"
  by (simp add: getStateAsObject_def length_split)

lemma toState_finite:
  "toState \<lparr>obj_h = Num (Finite x), obj_s = Num (Finite y), obj_b = Num (Finite z)\<rparr>
     = IntToString \<lceil>x\<rceil> @ '','' @ IntToString \<lceil>y\<rceil> @ '','' @ IntToString \<lceil>z\<rceil>"
  by (simp add: toState_def Math_ceil_def ToNumber_def WholeToString_def)

text \<open>
  Claim C8. The encoding of a color with finite channels is the three channels, each
  rounded up to the next whole number, written in decimal and joined by commas; decoding
  the encoding gives back exactly these three ceilings. \<open>99.1\<close> becomes \<open>100\<close>.
\<close>

theorem toState_ceiling:
  "toState \<lparr>obj_h = Num (Finite x), obj_s = Num (Finite y), obj_b = Num (Finite z)\<rparr>
     = IntToString \<lceil>x\<rceil> @ '','' @ IntToString \<lceil>y\<rceil> @ '','' @ IntToString \<lceil>z\<rceil>
   \<and> getStateAsObject
        (toState \<lparr>obj_h = Num (Finite x), obj_s = Num (Finite y), obj_b = Num (Finite z)\<rparr>)
     = \<lparr>obj_h = Num (Finite (of_int \<lceil>x\<rceil>)), obj_s = Num (Finite (of_int \<lceil>y\<rceil>)),
        obj_b = Num (Finite (of_int \<lceil>z\<rceil>))\<rparr>
   \<and> toState \<lparr>obj_h = Num (Finite 99.1), obj_s = Num (Finite 0), obj_b = Num (Finite 0)\<rparr>
     = ''100,0,0''"
proof -
  have ex: "toState \<lparr>obj_h = Num (Finite 99.1), obj_s = Num (Finite 0), obj_b = Num (Finite 0)\<rparr>
     = ''100,0,0''"
    by (simp add: toState_finite IntToString_def NatToString.simps digit_char_def)
  have rt: "getStateAsObject
        (toState \<lparr>obj_h = Num (Finite x), obj_s = Num (Finite y), obj_b = Num (Finite z)\<rparr>)
     = \<lparr>obj_h = Num (Finite (of_int \<lceil>x\<rceil>)), obj_s = Num (Finite (of_int \<lceil>y\<rceil>)),
        obj_b = Num (Finite (of_int \<lceil>z\<rceil>))\<rparr>"
    by (simp only: toState_finite
          getStateAsObject_three [OF comma_notin_IntToString comma_notin_IntToString
            comma_notin_IntToString] parseInt_IntToString)
  show ?thesis
    using toState_finite [of x y z] rt ex by (intro conjI)
qed

theorem toState_ceiling_witness:
  "toState \<lparr>obj_h = Num (Finite 359.5), obj_s = Num (Finite (-0.5)), obj_b = Num (Finite 7)\<rparr>
     = ''360,0,7''"
  using toState_ceiling [of "359.5" "-0.5" 7]
  by (simp add: IntToString_def NatToString.simps digit_char_def)

lemma radixPrefix_point: "fractionTail t \<Longrightarrow> radixPrefix 10 t = []"
  by (cases t) (auto simp: fractionTail_def radixDigit_def hexDigitValue_def)

lemma whole_part_no_hex_prefix:
  assumes "isDecimal ds" "ds \<noteq> []" "fractionTail t"
  shows "take 2 (ds @ t) \<noteq> ''0x''" "take 2 (ds @ t) \<noteq> ''0X''"
proof -
  have x: "CHR ''x'' \<notin> set ds" "CHR ''X'' \<notin> set ds"
    using isDecimal_not_member [OF assms(1)]
    by (simp_all add: radixDigit_def hexDigitValue_def)
  obtain a r where ds: "ds = a # r" using assms(2) by (cases ds) auto
  show "take 2 (ds @ t) \<noteq> ''0x''" "take 2 (ds @ t) \<noteq> ''0X''"
    using x assms(3)
    by (cases r; cases t; auto simp: ds fractionTail_def)+
qed

lemma parseInt_whole_part:
  assumes "isDecimal ds" "ds \<noteq> []" "fractionTail t"
  shows "parseInt (ds @ t) = Finite (real (digitsVal 10 (map (\<lambda>c. the (radixDigit 10 c)) ds)))"
proof -
  define S where "S = ds @ t"
  obtain a r where ds: "ds = a # r" using assms(2) by (cases ds) auto
  have a: "radixDigit 10 a \<noteq> None"
    using assms(1) by (auto simp: ds isDecimal_def)
  have ws: "dropWhile isWhiteSpace S = S"
    using a by (auto simp: S_def ds isWhiteSpace_def radixDigit_def hexDigitValue_def)
  have sg: "take (Suc 0) S \<noteq> ''-''" "take (Suc 0) S \<noteq> ''+''"
    using a by (auto simp: S_def ds radixDigit_def hexDigitValue_def)
  have hex: "take 2 S \<noteq> ''0x''" "take 2 S \<noteq> ''0X''"
    unfolding S_def by (rule whole_part_no_hex_prefix [OF assms])+
  have Z: "radixPrefix 10 S = map (\<lambda>c. the (radixDigit 10 c)) ds"
    using radixPrefix_decimal [OF assms(1), of t] radixPrefix_point [OF assms(3)]
    by (simp add: S_def)
  have "parseInt S = Finite (real (digitsVal 10 (map (\<lambda>c. the (radixDigit 10 c)) ds)))"
    unfolding parseInt_def Let_def
    by (simp add: ws sg hex Z assms(2))
  then show ?thesis by (simp only: S_def)
qed

lemma parseInt_NatToString_tail:
  "fractionTail t \<Longrightarrow> parseInt (NatToString n @ t) = Finite (real n)"
  by (simp add: parseInt_whole_part isDecimal_NatToString NatToString_nonempty
        digitsVal_NatToString)

lemma parseInt_empty: "parseInt [] = NaN"
  by (simp add: parseInt_def)

lemma parseInt_not_a_number:
  assumes "radixDigit 10 c = None" "\<not> isWhiteSpace c" "c \<noteq> CHR ''-''" "c \<noteq> CHR ''+''"
  shows "parseInt (c # cs) = NaN"
proof -
  have "c \<noteq> CHR ''0''"
    using assms(1) by (auto simp: radixDigit_def hexDigitValue_def)
  then show ?thesis
    using assms by (simp add: parseInt_def Let_def)
qed

lemma comma_notin_whole_part:
  "fractionTail t \<Longrightarrow> CHR '','' \<notin> set (NatToString n @ t)"
  using comma_notin_IntToString [of "int n"] by (simp add: IntToString_def fractionTail_def)

text \<open>
  Claim C9, as the code has it. A state of three components separated by two commas
  decodes to \<open>parseInt\<close> of each component: the whole number the component starts with.
  A fractional part is dropped, so whole numbers (up to \<open>2\<^sup>5\<^sup>3\<close>, which a JavaScript number
  holds exactly) followed by nothing or by a point and a fraction decode to the whole
  numbers; an empty component, or one that starts with neither white space, a sign nor a
  digit, decodes to \<open>NaN\<close>. The number of components is one more than the number of
  commas, and every state that does not split into exactly three decodes to the color of
  three zeros.
\<close>

theorem getStateAsObject_split:
  "(CHR '','' \<notin> set x \<and> CHR '','' \<notin> set y \<and> CHR '','' \<notin> set z \<longrightarrow>
      getStateAsObject (x @ '','' @ y @ '','' @ z)
        = \<lparr>obj_h = Num (parseInt x), obj_s = Num (parseInt y), obj_b = Num (parseInt z)\<rparr>)
   \<and> (fractionTail t \<and> fractionTail u \<and> fractionTail v
        \<and> i \<le> 9007199254740992 \<and> j \<le> 9007199254740992 \<and> k \<le> 9007199254740992 \<longrightarrow>
      getStateAsObject
        ((NatToString i @ t) @ '','' @ (NatToString j @ u) @ '','' @ (NatToString k @ v))
        = \<lparr>obj_h = Num (Finite (real i)), obj_s = Num (Finite (real j)),
           obj_b = Num (Finite (real k))\<rparr>)
   \<and> parseInt [] = NaN
   \<and> (radixDigit 10 c = None \<and> \<not> isWhiteSpace c \<and> c \<noteq> CHR ''-'' \<and> c \<noteq> CHR ''+'' \<longrightarrow>
        parseInt (c # cs) = NaN)
   \<and> length (split CHR '','' st) = Suc (count_list st CHR '','')
   \<and> (length (split CHR '','' st) \<noteq> 3 \<longrightarrow>
        getStateAsObject st
          = \<lparr>obj_h = Num (Finite 0), obj_s = Num (Finite 0), obj_b = Num (Finite 0)\<rparr>)
   \<and> getStateAsObject ''10,20,30''
        = \<lparr>obj_h = Num (Finite 10), obj_s = Num (Finite 20), obj_b = Num (Finite 30)\<rparr>
   \<and> getStateAsObject ''garbage''
        = \<lparr>obj_h = Num (Finite 0), obj_s = Num (Finite 0), obj_b = Num (Finite 0)\<rparr>"
proof -
  have a: "fractionTail t \<and> fractionTail u \<and> fractionTail v
        \<and> i \<le> 9007199254740992 \<and> j \<le> 9007199254740992 \<and> k \<le> 9007199254740992 \<longrightarrow>
      getStateAsObject
        ((NatToString i @ t) @ '','' @ (NatToString j @ u) @ '','' @ (NatToString k @ v))
        = \<lparr>obj_h = Num (Finite (real i)), obj_s = Num (Finite (real j)),
           obj_b = Num (Finite (real k))\<rparr>"
  proof
    assume h: "fractionTail t \<and> fractionTail u \<and> fractionTail v
        \<and> i \<le> 9007199254740992 \<and> j \<le> 9007199254740992 \<and> k \<le> 9007199254740992"
    then have ft: "fractionTail t" "fractionTail u" "fractionTail v" by simp_all
    show "getStateAsObject
        ((NatToString i @ t) @ '','' @ (NatToString j @ u) @ '','' @ (NatToString k @ v))
        = \<lparr>obj_h = Num (Finite (real i)), obj_s = Num (Finite (real j)),
           obj_b = Num (Finite (real k))\<rparr>"
      by (simp only: getStateAsObject_three [OF comma_notin_whole_part [OF ft(1)]
              comma_notin_whole_part [OF ft(2)] comma_notin_whole_part [OF ft(3)]]
            parseInt_NatToString_tail [OF ft(1)] parseInt_NatToString_tail [OF ft(2)]
            parseInt_NatToString_tail [OF ft(3)])
  qed
  have b: "getStateAsObject ''10,20,30''
        = \<lparr>obj_h = Num (Finite 10), obj_s = Num (Finite 20), obj_b = Num (Finite 30)\<rparr>"
    by (simp add: getStateAsObject_def parseInt_def isWhiteSpace_def radixDigit_def
          hexDigitValue_def digitsVal_def Let_def)
  have c: "getStateAsObject ''garbage''
        = \<lparr>obj_h = Num (Finite 0), obj_s = Num (Finite 0), obj_b = Num (Finite 0)\<rparr>"
    by (simp add: getStateAsObject_def)
  have d: "length (split CHR '','' st) \<noteq> 3 \<longrightarrow>
        getStateAsObject st
          = \<lparr>obj_h = Num (Finite 0), obj_s = Num (Finite 0), obj_b = Num (Finite 0)\<rparr>"
    by (simp add: getStateAsObject_def)
  have e: "CHR '','' \<notin> set x \<and> CHR '','' \<notin> set y \<and> CHR '','' \<notin> set z \<longrightarrow>
      getStateAsObject (x @ '','' @ y @ '','' @ z)
        = \<lparr>obj_h = Num (parseInt x), obj_s = Num (parseInt y), obj_b = Num (parseInt z)\<rparr>"
    using getStateAsObject_three [of x y z] by blast
  have f: "radixDigit 10 c = None \<and> \<not> isWhiteSpace c \<and> c \<noteq> CHR ''-'' \<and> c \<noteq> CHR ''+'' \<longrightarrow>
        parseInt (c # cs) = NaN"
    using parseInt_not_a_number [of c cs] by blast
  show ?thesis
    using e a parseInt_empty f length_split [of "CHR '',''" st] d b c
    by (intro conjI)
qed

theorem getStateAsObject_split_witness:
  "getStateAsObject ''214.9,80.5,58.82353''
     = \<lparr>obj_h = Num (Finite 214), obj_s = Num (Finite 80), obj_b = Num (Finite 58)\<rparr>
   \<and> parseInt ''a'' = NaN
   \<and> getStateAsObject ''1,2''
     = \<lparr>obj_h = Num (Finite 0), obj_s = Num (Finite 0), obj_b = Num (Finite 0)\<rparr>"
  using getStateAsObject_split
          [of "''120''" "''80''" "''100''" "''.9''" "''.5''" "''.82353''" 214 80 58
              "CHR ''a''" "[]" "''1,2''"]
  by (simp add: fractionTail_def NatToString.simps digit_char_def radixDigit_def
        hexDigitValue_def isWhiteSpace_def)

text \<open>
  Claim C9 as stated does not hold: the components of \<open>214.9,80.5,58.82353\<close> are not what
  is decoded, which is 214, 80 and 58 (the number \<open>214.9\<close> is not 214); and \<open>a,,\<close> splits
  into three components and decodes to three \<open>NaN\<close>.
\<close>

theorem getStateAsObject_truncates_counterexample:
  "getStateAsObject ''214.9,80.5,58.82353''
     = \<lparr>obj_h = Num (Finite 214), obj_s = Num (Finite 80), obj_b = Num (Finite 58)\<rparr>
   \<and> StringToNumber ''214.9'' = Finite (2149 / 10)
   \<and> getStateAsObject ''a,,'' = \<lparr>obj_h = Num NaN, obj_s = Num NaN, obj_b = Num NaN\<rparr>"
  by (simp add: getStateAsObject_def parseInt_def StringToNumber_def trim_def isWhiteSpace_def
        NonDecimalIntegerLiteral_def StrUnsignedDecimalLiteral_def SignedInteger_def
        allDigits_def radixDigit_def hexDigitValue_def digitsVal_def isExponentIndicator_def
        Let_def)

section \<open>Properties of the number decoding\<close>

lemmas Number_eval = StringToNumber_def trim_def isWhiteSpace_def NonDecimalIntegerLiteral_def
  StrUnsignedDecimalLiteral_def SignedInteger_def allDigits_def radixDigit_def hexDigitValue_def
  digitsVal_def isExponentIndicator_def Let_def

lemma takeWhile_first:
  "c \<notin> set p \<Longrightarrow> takeWhile (\<lambda>x. x \<noteq> c) (p @ c # u) = p"
  by (induction p) auto

lemma indexOf_first:
  "c \<notin> set p \<Longrightarrow> indexOf c (p @ c # u) = int (length p)"
  by (simp add: indexOf_def takeWhile_first)

lemma indexOf_absent: "c \<notin> set s \<Longrightarrow> indexOf c s = - 1"
  by (simp add: indexOf_def)

lemma indexOf_leading: "take 1 s = [c] \<Longrightarrow> indexOf c s = 0"
  by (cases s) (auto simp: indexOf_def)

lemma isNumberItem_itemState [simp]: "isNumberItem (item\<lparr>itemState := x\<rparr>) = isNumberItem item"
  by (simp add: isNumberItem_def)

lemma getItems_number_split:
  assumes "isNumberItem item" "CHR '' '' \<notin> set p" "p \<noteq> []"
  shows "getItems_number (item\<lparr>itemState := Str (p @ '' '' @ u)\<rparr>)
         = item\<lparr>itemUnit := Some u,
                itemState := (if StringToNumber p = NaN then Str (p @ '' '' @ u)
                              else Num (StringToNumber p))\<rparr>"
  using assms by (simp add: getItems_number_def indexOf_first Let_def)

lemma getItems_number_whole:
  assumes "isNumberItem item" "CHR '' '' \<notin> set st \<or> take 1 st = '' ''"
  shows "getItems_number (item\<lparr>itemState := Str st\<rparr>)
         = item\<lparr>itemState := (if StringToNumber st = NaN then Str st
                              else Num (StringToNumber st))\<rparr>"
proof -
  have "indexOf CHR '' '' st \<le> 0"
    using assms(2) indexOf_absent [of "CHR '' ''" st] indexOf_leading [of st "CHR '' ''"]
    by auto
  then show ?thesis
    using assms(1) by (simp add: getItems_number_def Let_def)
qed

text \<open>
  Claim C7, as the code has it. For a number item, a state whose first space comes after
  at least one character is split there: what follows the space is stored as the unit and
  what precedes it is parsed; a state without a space, or with a space in front, is parsed
  whole and the unit is left as it is. When the part parsed is not a number, the state of
  the item is left as it was (the unit, if there is one, is stored all the same); no error
  is raised. \<open>23.5 \<degree>C\<close> gives \<open>23.5\<close> with the unit \<open>\<degree>C\<close>, and \<open>abc\<close> is left alone.
\<close>

theorem getItems_number_decode:
  "(isNumberItem item \<and> CHR '' '' \<notin> set p \<and> p \<noteq> [] \<longrightarrow>
      getItems_number (item\<lparr>itemState := Str (p @ '' '' @ u)\<rparr>)
        = item\<lparr>itemUnit := Some u,
               itemState := (if StringToNumber p = NaN then Str (p @ '' '' @ u)
                             else Num (StringToNumber p))\<rparr>)
   \<and> (isNumberItem item \<and> (CHR '' '' \<notin> set st \<or> take 1 st = '' '') \<longrightarrow>
      getItems_number (item\<lparr>itemState := Str st\<rparr>)
        = item\<lparr>itemState := (if StringToNumber st = NaN then Str st
                             else Num (StringToNumber st))\<rparr>)
   \<and> getItems_number \<lparr>itemType = Some ''Number:Temperature'', groupType = None,
                        itemState = Str (''23.5 '' @ [CHR 0xB0] @ ''C''), itemUnit = None\<rparr>
        = \<lparr>itemType = Some ''Number:Temperature'', groupType = None,
           itemState = Num (Finite 23.5), itemUnit = Some ([CHR 0xB0] @ ''C'')\<rparr>
   \<and> getItems_number \<lparr>itemType = Some ''Number'', groupType = None,
                        itemState = Str ''abc'', itemUnit = None\<rparr>
        = \<lparr>itemType = Some ''Number'', groupType = None,
           itemState = Str ''abc'', itemUnit = None\<rparr>"
proof -
  have a: "getItems_number \<lparr>itemType = Some ''Number:Temperature'', groupType = None,
                        itemState = Str (''23.5 '' @ [CHR 0xB0] @ ''C''), itemUnit = None\<rparr>
        = \<lparr>itemType = Some ''Number:Temperature'', groupType = None,
           itemState = Num (Finite 23.5), itemUnit = Some ([CHR 0xB0] @ ''C'')\<rparr>"
    by (simp add: getItems_number_def isNumberItem_def startsWith_def indexOf_def Number_eval)
  have b: "getItems_number \<lparr>itemType = Some ''Number'', groupType = None,
                        itemState = Str ''abc'', itemUnit = None\<rparr>
        = \<lparr>itemType = Some ''Number'', groupType = None,
           itemState = Str ''abc'', itemUnit = None\<rparr>"
    by (simp add: getItems_number_def isNumberItem_def startsWith_def indexOf_def Number_eval)
  have c: "isNumberItem item \<and> CHR '' '' \<notin> set p \<and> p \<noteq> [] \<longrightarrow>
      getItems_number (item\<lparr>itemState := Str (p @ '' '' @ u)\<rparr>)
        = item\<lparr>itemUnit := Some u,
               itemState := (if StringToNumber p = NaN then Str (p @ '' '' @ u)
                             else Num (StringToNumber p))\<rparr>"
    using getItems_number_split [of item p u] by blast
  have d: "isNumberItem item \<and> (CHR '' '' \<notin> set st \<or> take 1 st = '' '') \<longrightarrow>
      getItems_number (item\<lparr>itemState := Str st\<rparr>)
        = item\<lparr>itemState := (if StringToNumber st = NaN then Str st
                             else Num (StringToNumber st))\<rparr>"
    using getItems_number_whole [of item st] by blast
  show ?thesis
    using a b c d by (intro conjI)
qed

theorem getItems_number_decode_witness:
  "getItems_number \<lparr>itemType = Some ''Number'', groupType = None,
                     itemState = Str ''12 kg'', itemUnit = None\<rparr>
     = \<lparr>itemType = Some ''Number'', groupType = None,
        itemState = Num (Finite 12), itemUnit = Some ''kg''\<rparr>
   \<and> getItems_number \<lparr>itemType = Some ''Number'', groupType = None,
                     itemState = Str ''UNDEF'', itemUnit = None\<rparr>
     = \<lparr>itemType = Some ''Number'', groupType = None,
        itemState = Str ''UNDEF'', itemUnit = None\<rparr>"
  using getItems_number_decode
          [of "\<lparr>itemType = Some ''Number'', groupType = None, itemState = Str [],
                itemUnit = None\<rparr>" "''12''" "''kg''" "''UNDEF''"]
  by (simp add: isNumberItem_def startsWith_def Number_eval)

text \<open>
  Claim C7 as stated does not hold for every input with a space: the state \<open> 5\<close> with
  a space in front is not split, no unit is stored and the state becomes the number 5.
\<close>

theorem getItems_number_leading_space_counterexample:
  "CHR '' '' \<in> set '' 5''
   \<and> getItems_number \<lparr>itemType = Some ''Number'', groupType = None,
                        itemState = Str '' 5'', itemUnit = None\<rparr>
        = \<lparr>itemType = Some ''Number'', groupType = None,
           itemState = Num (Finite 5), itemUnit = None\<rparr>"
  by (simp add: getItems_number_def isNumberItem_def startsWith_def indexOf_def Number_eval)


section \<open>Properties of the color controller\<close>

lemma orZero_100: "orZero (Num (Finite 100)) = Num (Finite 100)"
  by (simp add: orZero_def)

lemma parseInt_100: "parseInt ''100'' = Finite 100"
  by (simp add: parseInt_def isWhiteSpace_def radixDigit_def hexDigitValue_def digitsVal_def Let_def)

lemma comma_notin_100: "CHR '','' \<notin> set ''100''"
  by simp

lemma ceil_100: "WholeToString (Math_ceil (Num (Finite 100))) = ''100''"
  by (simp add: Math_ceil_def ToNumber_def WholeToString_def IntToString_def
        NatToString.simps digit_char_def)

lemma Color_fire_uninitialized:
  assumes "item_state sc \<in> {''UNDEF'', ''NULL'', ''-''}"
  shows "Color_fire t ColorTimeout sc
         = sc\<lparr>item_state := WholeToString (Math_ceil (nanToZero (hue sc))) @ '',100,100'',
               sent := sent sc
                  @ [(t, Str (WholeToString (Math_ceil (nanToZero (hue sc))) @ '',100,100''))],
               pending := False,
               brightness := Num (Finite 100),
               hue := orZero (Num (parseInt (WholeToString (Math_ceil (nanToZero (hue sc)))))),
               saturation := Num (Finite 100)\<rparr>"
proof -
  let ?x = "WholeToString (Math_ceil (nanToZero (hue sc)))"
  from assms have unin:
    "item_state sc = ''UNDEF'' \<or> item_state sc = ''NULL'' \<or> item_state sc = ''-''"
    by simp
  have ne: "?x @ '',100,100'' \<noteq> item_state sc"
  proof
    assume "?x @ '',100,100'' = item_state sc"
    then have "CHR '','' \<in> set (item_state sc)"
      by (metis in_set_conv_decomp)
    with assms show False by auto
  qed
  have g: "getStateAsObject (?x @ '',100,100'')
           = \<lparr>obj_h = Num (parseInt ?x), obj_s = Num (Finite 100), obj_b = Num (Finite 100)\<rparr>"
    using getStateAsObject_three [OF comma_notin_WholeToString comma_notin_100 comma_notin_100,
            of "Math_ceil (nanToZero (hue sc))"]
    by (simp add: parseInt_100)
  show ?thesis
    using unin ne
    by (simp add: Color_fire_def Let_def toState_def ceil_100 sendCommand_def setStates_def g
          orZero_100)
qed

lemma Color_handle_unfold:
  "Color_handle e w =
     (case e of
        ColorSetBrightness x \<Rightarrow> Color_arm BrightnessTimeout (w\<lparr>vars := (vars w)\<lparr>brightness := x\<rparr>\<rparr>)
      | ColorSetHue x \<Rightarrow> Color_arm ColorTimeout (w\<lparr>vars := (vars w)\<lparr>hue := x\<rparr>\<rparr>)
      | ColorSetSaturation x \<Rightarrow> Color_arm ColorTimeout (w\<lparr>vars := (vars w)\<lparr>saturation := x\<rparr>\<rparr>))"
  by (simp add: Color_handle_def Color_setBrightness_def Color_setHue_def
        Color_setSaturation_def setColor_def split: ColorEvent.splits)

lemma Dimmer_handle_unfold:
  "Dimmer_handle e w =
     (case e of
        DimmerSetSwitch on \<Rightarrow> Dimmer_sendCommand (Str (if on then ''ON'' else ''OFF'')) w
      | DimmerSetBrightness x \<Rightarrow>
          Dimmer_sendCommand x
            (w\<lparr>vars := (vars w)\<lparr>switchState := greaterThanZero (ToNumber x)\<rparr>\<rparr>))"
  by (simp add: Dimmer_handle_def Dimmer_setSwitch_def Dimmer_setBrightness_def
      split: DimmerEvent.splits)

lemma Player_handle_unfold:
  "Player_handle e w =
     (case e of
        OnPrevDown \<Rightarrow> onDown ''REWIND'' w
      | OnPrevUp \<Rightarrow> onUp ''PREVIOUS'' w
      | OnNextDown \<Rightarrow> onDown ''FASTFORWARD'' w
      | OnNextUp \<Rightarrow> onUp ''NEXT'' w)"
  by (simp add: Player_handle_def onPrevDown_def onPrevUp_def onNextDown_def onNextUp_def
      split: PlayerEvent.splits)

lemma run_Nil [simp]: "run handle fire [] w = w"
  by (simp add: run_def)

lemma run_Cons [simp]: "run handle fire (e # es) w = run handle fire es (step handle fire w e)"
  by (simp add: run_def)


lemma step_User [simp]: "step handle fire w (User u) = handle u w"
  by (simp add: step_def)

lemma step_Wait [simp]: "step handle fire w (Wait d) = wait fire d w"
  by (simp add: step_def)

lemma wait_no_timers: "timers w = [] \<Longrightarrow> wait fire d w = w\<lparr>now := now w + d\<rparr>"
  by (simp add: wait_def)

lemma wait_single_fires:
  "timers w = [t] \<Longrightarrow> due t \<le> now w + d \<Longrightarrow>
   wait fire d w = w\<lparr>now := now w + d, timers := [], vars := fire (due t) (callback t) (vars w)\<rparr>"
  by (simp add: wait_def)

lemma wait_single_stays:
  "timers w = [t] \<Longrightarrow> now w + d < due t \<Longrightarrow> wait fire d w = w\<lparr>now := now w + d\<rparr>"
  by (simp add: wait_def)

lemma setHue_uninitialized:
  assumes "timers w = []" "\<not> pending (vars w)"
    "item_state (vars w) \<in> {''UNDEF'', ''NULL'', ''-''}"
  shows "sent (vars (run Color_handle Color_fire [User (ColorSetHue x), Wait 300] w))
         = sent (vars w)
             @ [(now w + 300, Str (WholeToString (Math_ceil (nanToZero x)) @ '',100,100''))]"
  using assms
  by (simp add: Color_handle_unfold Color_arm_def timeout_def wait_def
        Color_fire_uninitialized)

lemma setSaturation_uninitialized:
  assumes "timers w = []" "\<not> pending (vars w)"
    "item_state (vars w) \<in> {''UNDEF'', ''NULL'', ''-''}"
  shows "sent (vars (run Color_handle Color_fire [User (ColorSetSaturation y), Wait 300] w))
         = sent (vars w)
             @ [(now w + 300,
                 Str (WholeToString (Math_ceil (nanToZero (hue (vars w)))) @ '',100,100''))]"
  using assms
  by (simp add: Color_handle_unfold Color_arm_def timeout_def wait_def
        Color_fire_uninitialized)

text \<open>
  Claim C10. When the color timer fires while the state of the item is \<open>UNDEF\<close>, \<open>NULL\<close>
  or \<open>-\<close>, the command sent is the hue, rounded up, followed by \<open>100,100\<close>: saturation
  and brightness are both 100 in the command, in the state of the item and in the two
  sliders, whatever the sliders held before. So a change of the hue, or of the
  saturation, on an idle controller with such a state sends this command 300 ms later.
\<close>

theorem setColor_uninitialized:
  "(item_state sc \<in> {''UNDEF'', ''NULL'', ''-''} \<longrightarrow>
      sent (Color_fire t ColorTimeout sc)
        = sent sc @ [(t, Str (WholeToString (Math_ceil (nanToZero (hue sc))) @ '',100,100''))]
      \<and> item_state (Color_fire t ColorTimeout sc)
        = WholeToString (Math_ceil (nanToZero (hue sc))) @ '',100,100''
      \<and> brightness (Color_fire t ColorTimeout sc) = Num (Finite 100)
      \<and> saturation (Color_fire t ColorTimeout sc) = Num (Finite 100)
      \<and> \<not> pending (Color_fire t ColorTimeout sc))
   \<and> (timers w = [] \<and> \<not> pending (vars w)
        \<and> item_state (vars w) \<in> {''UNDEF'', ''NULL'', ''-''} \<longrightarrow>
      sent (vars (run Color_handle Color_fire [User (ColorSetHue x), Wait 300] w))
        = sent (vars w)
            @ [(now w + 300, Str (WholeToString (Math_ceil (nanToZero x)) @ '',100,100''))]
      \<and> sent (vars (run Color_handle Color_fire [User (ColorSetSaturation y), Wait 300] w))
        = sent (vars w)
            @ [(now w + 300,
                Str (WholeToString (Math_ceil (nanToZero (hue (vars w)))) @ '',100,100''))])"
proof -
  have a: "item_state sc \<in> {''UNDEF'', ''NULL'', ''-''} \<longrightarrow>
      sent (Color_fire t ColorTimeout sc)
        = sent sc @ [(t, Str (WholeToString (Math_ceil (nanToZero (hue sc))) @ '',100,100''))]
      \<and> item_state (Color_fire t ColorTimeout sc)
        = WholeToString (Math_ceil (nanToZero (hue sc))) @ '',100,100''
      \<and> brightness (Color_fire t ColorTimeout sc) = Num (Finite 100)
      \<and> saturation (Color_fire t ColorTimeout sc) = Num (Finite 100)
      \<and> \<not> pending (Color_fire t ColorTimeout sc)"
    by (simp add: Color_fire_uninitialized)
  have b: "timers w = [] \<and> \<not> pending (vars w)
        \<and> item_state (vars w) \<in> {''UNDEF'', ''NULL'', ''-''} \<longrightarrow>
      sent (vars (run Color_handle Color_fire [User (ColorSetHue x), Wait 300] w))
        = sent (vars w)
            @ [(now w + 300, Str (WholeToString (Math_ceil (nanToZero x)) @ '',100,100''))]
      \<and> sent (vars (run Color_handle Color_fire [User (ColorSetSaturation y), Wait 300] w))
        = sent (vars w)
            @ [(now w + 300,
                Str (WholeToString (Math_ceil (nanToZero (hue (vars w)))) @ '',100,100''))]"
    using setHue_uninitialized [of w x] setSaturation_uninitialized [of w y] by blast
  show ?thesis
    using a b by (intro conjI)
qed

theorem setColor_uninitialized_witness:
  "sent (vars (run Color_handle Color_fire
                 [User (ColorSetSaturation (Num (Finite 40))), Wait 300]
                 (ColorItemController ''NULL'')))
     = [(300, Str ''0,100,100'')]
   \<and> sent (Color_fire 7 ColorTimeout
            \<lparr>item_state = ''UNDEF'', sent = [], pending = True, brightness = Num (Finite 20),
             hue = Num (Finite 199.5), saturation = Num (Finite 40)\<rparr>)
     = [(7, Str ''200,100,100'')]"
  using setColor_uninitialized
          [of "\<lparr>item_state = ''UNDEF'', sent = [], pending = True, brightness = Num (Finite 20),
                hue = Num (Finite 199.5), saturation = Num (Finite 40)\<rparr>" 7
              "ColorItemController ''NULL''" "Num (Finite 0)" "Num (Finite 40)"]
  by (simp add: ColorItemController_def undefToDash_def setStates_def getStateAsObject_def
        orZero_def nanToZero_def isNaN_def ToNumber_def Math_ceil_def WholeToString_def
        IntToString_def NatToString.simps digit_char_def)


section \<open>Properties of the schedulers\<close>

lemma paced_snoc: "paced ts \<Longrightarrow> list_all (\<lambda>u. u + 300 \<le> d) ts \<Longrightarrow> paced (ts @ [d])"
  by (induction ts rule: paced.induct) auto

lemma now_wait [simp]: "now (wait fire d w) = now w + d"
  by (simp add: wait_def split: prod.splits)

lemma now_Dimmer_handle [simp]: "now (Dimmer_handle e w) = now w"
  by (simp add: Dimmer_handle_unfold Dimmer_sendCommand_def timeout_def timeout_cancel_def Let_def
      split: DimmerEvent.splits option.splits)

lemma now_Color_handle [simp]: "now (Color_handle e w) = now w"
  by (simp add: Color_handle_unfold Color_arm_def timeout_def split: ColorEvent.splits)

lemma now_run_Dimmer: "now (run Dimmer_handle Dimmer_fire es w) = now w + duration es"
proof (induction es arbitrary: w)
  case Nil
  then show ?case by simp
next
  case (Cons e es)
  then show ?case by (cases e) simp_all
qed

lemma now_run_Color: "now (run Color_handle Color_fire es w) = now w + duration es"
proof (induction es arbitrary: w)
  case Nil
  then show ?case by simp
next
  case (Cons e es)
  then show ?case by (cases e) simp_all
qed

lemma schedule_ok_idle_wait:
  "schedule_ok n w \<Longrightarrow> timers w = [] \<Longrightarrow> schedule_ok n (w\<lparr>now := now w + d\<rparr>)"
  by (auto simp: schedule_ok_def list_all_iff)

lemma schedule_ok_armed_wait:
  "schedule_ok n w \<Longrightarrow> timers w = [t] \<Longrightarrow> now w + d < due t \<Longrightarrow>
   schedule_ok n (w\<lparr>now := now w + d\<rparr>)"
  by (auto simp: schedule_ok_def list_all_iff)

lemma schedule_ok_fired:
  assumes "schedule_ok n w" "timers w = [t]" "due t \<le> now w + d"
    "sent v = sent (vars w) @ [(due t, c)]"
  shows "schedule_ok n (w\<lparr>now := now w + d, timers := [], vars := v\<rparr>)"
  using assms by (auto simp: schedule_ok_def list_all_iff paced_snoc)

lemma schedule_ok_arm:
  assumes "schedule_ok n w" "sent v = sent (vars w)"
  shows "schedule_ok (Suc n)
           (w\<lparr>nextId := k, timers := [\<lparr>timer_id = i, due = now w + 300, callback = cb\<rparr>],
              vars := v\<rparr>)"
  using assms by (auto simp: schedule_ok_def list_all_iff split: list.splits)

lemma schedule_ok_single:
  "schedule_ok n w \<Longrightarrow> timers w = [] \<or> (\<exists>t. timers w = [t])"
  by (auto simp: schedule_ok_def split: list.splits)

lemma schedule_ok_mono: "schedule_ok n w \<Longrightarrow> schedule_ok (Suc n) w"
  by (auto simp: schedule_ok_def)

lemma Dimmer_sendCommand_inv:
  assumes "Dimmer_inv n w"
  shows "Dimmer_inv (Suc n) (Dimmer_sendCommand c w)"
proof -
  from assms have ok: "schedule_ok n w" by (simp add: Dimmer_inv_def)
  from schedule_ok_single [OF ok] show ?thesis
  proof
    assume e: "timers w = []"
    with assms have "commandTimeout (vars w) = None" by (simp add: Dimmer_inv_def)
    with e show ?thesis
      using schedule_ok_arm [OF ok, where v = "(vars w)\<lparr>commandTimeout := Some (nextId w)\<rparr>"
              and k = "Suc (nextId w)" and i = "nextId w" and cb = "DimmerTimeout c"]
      by (simp add: Dimmer_inv_def Dimmer_sendCommand_def timeout_def Let_def)
  next
    assume "\<exists>t. timers w = [t]"
    then obtain t where e: "timers w = [t]" ..
    with assms have "commandTimeout (vars w) = Some (timer_id t)" by (simp add: Dimmer_inv_def)
    with e show ?thesis
      using schedule_ok_arm [OF ok, where v = "(vars w)\<lparr>commandTimeout := Some (nextId w)\<rparr>"
              and k = "Suc (nextId w)" and i = "nextId w" and cb = "DimmerTimeout c"]
      by (simp add: Dimmer_inv_def Dimmer_sendCommand_def timeout_def timeout_cancel_def Let_def)
  qed
qed

lemma Dimmer_inv_switchState:
  "Dimmer_inv n w \<Longrightarrow> Dimmer_inv n (w\<lparr>vars := (vars w)\<lparr>switchState := b\<rparr>\<rparr>)"
  by (simp add: Dimmer_inv_def schedule_ok_def cong: list.case_cong)

lemma Dimmer_handle_inv: "Dimmer_inv n w \<Longrightarrow> Dimmer_inv (Suc n) (Dimmer_handle e w)"
  by (cases e) (simp_all add: Dimmer_handle_unfold Dimmer_sendCommand_inv Dimmer_inv_switchState)

lemma Dimmer_wait_inv:
  assumes "Dimmer_inv n w"
  shows "Dimmer_inv n (wait Dimmer_fire d w)"
proof -
  from assms have ok: "schedule_ok n w" by (simp add: Dimmer_inv_def)
  from schedule_ok_single [OF ok] show ?thesis
  proof
    assume e: "timers w = []"
    with assms schedule_ok_idle_wait [OF ok e, of d] show ?thesis
      by (simp add: Dimmer_inv_def wait_no_timers)
  next
    assume "\<exists>t. timers w = [t]"
    then obtain t where e: "timers w = [t]" ..
    show ?thesis
    proof (cases "due t \<le> now w + d")
      case True
      obtain c where c: "callback t = DimmerTimeout c" by (cases "callback t")
      have "sent (Dimmer_fire (due t) (callback t) (vars w)) = sent (vars w) @ [(due t, c)]"
        by (simp add: Dimmer_fire_def c sendCommand_def)
      from schedule_ok_fired [OF ok e True this] show ?thesis
        by (simp add: Dimmer_inv_def wait_single_fires [OF e True] Dimmer_fire_def c)
    next
      case False
      then have lt: "now w + d < due t" by simp
      with assms e schedule_ok_armed_wait [OF ok e lt] show ?thesis
        by (simp add: Dimmer_inv_def wait_single_stays [OF e lt])
    qed
  qed
qed

lemma Dimmer_run_inv:
  "Dimmer_inv n w \<Longrightarrow> Dimmer_inv (n + submissions es) (run Dimmer_handle Dimmer_fire es w)"
proof (induction es arbitrary: n w)
  case Nil
  then show ?case by simp
next
  case (Cons e es)
  show ?case
  proof (cases e)
    case (User u)
    with Cons.IH [OF Dimmer_handle_inv [OF Cons.prems, of u]] show ?thesis by simp
  next
    case (Wait d)
    with Cons.IH [OF Dimmer_wait_inv [OF Cons.prems, of d]] show ?thesis by simp
  qed
qed

lemma Dimmer_inv_init: "Dimmer_inv 0 (DimmerItemController st)"
  by (simp add: Dimmer_inv_def schedule_ok_def DimmerItemController_def Dimmer_watch_def)

lemma Color_arm_inv:
  assumes "Color_inv n w"
  shows "Color_inv (Suc n) (Color_arm cb w)"
proof -
  from assms have ok: "schedule_ok n w" by (simp add: Color_inv_def)
  show ?thesis
  proof (cases "pending (vars w)")
    case True
    with assms show ?thesis
      by (simp add: Color_arm_def Color_inv_def schedule_ok_mono)
  next
    case False
    with assms have e: "timers w = []" by (simp add: Color_inv_def)
    with False show ?thesis
      using schedule_ok_arm [OF ok, where v = "(vars w)\<lparr>pending := True\<rparr>"
              and k = "Suc (nextId w)" and i = "nextId w" and cb = cb]
      by (simp add: Color_inv_def Color_arm_def timeout_def)
  qed
qed

lemma Color_inv_vars:
  "Color_inv n w \<Longrightarrow> sent v = sent (vars w) \<Longrightarrow> pending v = pending (vars w) \<Longrightarrow>
   Color_inv n (w\<lparr>vars := v\<rparr>)"
  by (simp add: Color_inv_def schedule_ok_def cong: list.case_cong)

lemma Color_handle_inv: "Color_inv n w \<Longrightarrow> Color_inv (Suc n) (Color_handle e w)"
  by (cases e) (simp_all add: Color_handle_unfold Color_arm_inv Color_inv_vars)

lemma sent_Color_fire: "\<exists>c. sent (Color_fire t cb sc) = sent sc @ [(t, c)]"
  by (cases cb) (simp_all add: Color_fire_def sendCommand_def Let_def setStates_def)

lemma pending_Color_fire: "\<not> pending (Color_fire t cb sc)"
  by (cases cb) (simp_all add: Color_fire_def sendCommand_def Let_def setStates_def)

lemma Color_wait_inv:
  assumes "Color_inv n w"
  shows "Color_inv n (wait Color_fire d w)"
proof -
  from assms have ok: "schedule_ok n w" by (simp add: Color_inv_def)
  from schedule_ok_single [OF ok] show ?thesis
  proof
    assume e: "timers w = []"
    with assms schedule_ok_idle_wait [OF ok e, of d] show ?thesis
      by (simp add: Color_inv_def wait_no_timers)
  next
    assume "\<exists>t. timers w = [t]"
    then obtain t where e: "timers w = [t]" ..
    show ?thesis
    proof (cases "due t \<le> now w + d")
      case True
      obtain c where "sent (Color_fire (due t) (callback t) (vars w)) = sent (vars w) @ [(due t, c)]"
        using sent_Color_fire by blast
      from schedule_ok_fired [OF ok e True this] show ?thesis
        by (simp add: Color_inv_def wait_single_fires [OF e True] pending_Color_fire)
    next
      case False
      then have lt: "now w + d < due t" by simp
      with assms e schedule_ok_armed_wait [OF ok e lt] show ?thesis
        by (simp add: Color_inv_def wait_single_stays [OF e lt])
    qed
  qed
qed

lemma Color_run_inv:
  "Color_inv n w \<Longrightarrow> Color_inv (n + submissions es) (run Color_handle Color_fire es w)"
proof (induction es arbitrary: n w)
  case Nil
  then show ?case by simp
next
  case (Cons e es)
  show ?case
  proof (cases e)
    case (User u)
    with Cons.IH [OF Color_handle_inv [OF Cons.prems, of u]] show ?thesis by simp
  next
    case (Wait d)
    with Cons.IH [OF Color_wait_inv [OF Cons.prems, of d]] show ?thesis by simp
  qed
qed

lemma Color_inv_init: "Color_inv 0 (ColorItemController st)"
  by (simp add: Color_inv_def schedule_ok_def ColorItemController_def setStates_def Let_def)




lemma Color_store_keeps [simp]:
  "pending (Color_store e sc) = pending sc" "sent (Color_store e sc) = sent sc"
  "item_state (Color_store e sc) = item_state sc"
  by (cases e; simp add: Color_store_def)+

lemma stored_keeps [simp]:
  "pending (stored e rest sc) = pending sc" "sent (stored e rest sc) = sent sc"
  "item_state (stored e rest sc) = item_state sc"
  by (induction e rest sc rule: stored.induct; simp)+












lemma Color_submit_while_pending:
  "pending (vars w) \<Longrightarrow> timers (Color_handle e w) = timers w \<and> pending (vars (Color_handle e w))"
  by (cases e) (simp_all add: Color_handle_unfold Color_arm_def)

lemma Dimmer_submit_while_armed:
  "timers w = [t] \<Longrightarrow> commandTimeout (vars w) = Some (timer_id t) \<Longrightarrow>
   timers (Dimmer_sendCommand c w)
     = [\<lparr>timer_id = nextId w, due = now w + 300, callback = DimmerTimeout c\<rparr>]"
  by (simp add: Dimmer_sendCommand_def timeout_def timeout_cancel_def Let_def)

lemma schedule_ok_facts:
  assumes "schedule_ok n w"
  shows "length (timers w) \<le> 1" "paced (map fst (sent (vars w)))"
    "300 * length (sent (vars w)) \<le> now w" "length (sent (vars w)) \<le> n"
  using assms by (auto simp: schedule_ok_def split: list.splits)

text \<open>
  Claim C1, as the code has it. In the color controller a submission made while \<open>pending\<close>
  is set starts no timer and leaves the armed one as it is. In the dimmer controller a
  submission made while a timer is armed cancels it and arms a new one, due 300 ms later.
  In every session of either controller at most one timer is armed, the commands sent
  are at least 300 ms apart, and their number is at most the duration divided by 300 and
  at most the number of submissions.
\<close>

theorem scheduler_rate:
  "(pending (vars wc) \<longrightarrow>
      timers (Color_handle ce wc) = timers wc \<and> pending (vars (Color_handle ce wc)))
   \<and> (timers wd = [t] \<and> commandTimeout (vars wd) = Some (timer_id t) \<longrightarrow>
      timers (Dimmer_sendCommand c wd)
        = [\<lparr>timer_id = nextId wd, due = now wd + 300, callback = DimmerTimeout c\<rparr>])
   \<and> length (timers (run Dimmer_handle Dimmer_fire ds (DimmerItemController st))) \<le> 1
   \<and> paced (map fst (sent (vars (run Dimmer_handle Dimmer_fire ds (DimmerItemController st)))))
   \<and> 300 * length (sent (vars (run Dimmer_handle Dimmer_fire ds (DimmerItemController st))))
        \<le> duration ds
   \<and> length (sent (vars (run Dimmer_handle Dimmer_fire ds (DimmerItemController st))))
        \<le> submissions ds
   \<and> length (timers (run Color_handle Color_fire cs (ColorItemController st))) \<le> 1
   \<and> paced (map fst (sent (vars (run Color_handle Color_fire cs (ColorItemController st)))))
   \<and> 300 * length (sent (vars (run Color_handle Color_fire cs (ColorItemController st))))
        \<le> duration cs
   \<and> length (sent (vars (run Color_handle Color_fire cs (ColorItemController st))))
        \<le> submissions cs"
proof -
  have d: "schedule_ok (submissions ds) (run Dimmer_handle Dimmer_fire ds (DimmerItemController st))"
    using Dimmer_run_inv [OF Dimmer_inv_init, of ds st] by (simp add: Dimmer_inv_def)
  have c: "schedule_ok (submissions cs) (run Color_handle Color_fire cs (ColorItemController st))"
    using Color_run_inv [OF Color_inv_init, of cs st] by (simp add: Color_inv_def)
  have nd: "now (run Dimmer_handle Dimmer_fire ds (DimmerItemController st)) = duration ds"
    by (simp add: now_run_Dimmer DimmerItemController_def Dimmer_watch_def)
  have nc: "now (run Color_handle Color_fire cs (ColorItemController st)) = duration cs"
    by (simp add: now_run_Color ColorItemController_def)
  show ?thesis
    using schedule_ok_facts [OF d] schedule_ok_facts [OF c] Color_submit_while_pending [of wc ce]
      Dimmer_submit_while_armed [of wd t c]
    unfolding nd nc by blast
qed

theorem scheduler_rate_witness:
  "timers (Dimmer_sendCommand (Num (Finite 7))
             (run Dimmer_handle Dimmer_fire [User (DimmerSetBrightness (Num (Finite 5))), Wait 100]
                (DimmerItemController ''50'')))
     = [\<lparr>timer_id = 1, due = 400, callback = DimmerTimeout (Num (Finite 7))\<rparr>]
   \<and> timers (Color_handle (ColorSetBrightness (Num (Finite 7)))
             (run Color_handle Color_fire [User (ColorSetBrightness (Num (Finite 5))), Wait 100]
                (ColorItemController ''10,20,30'')))
     = [\<lparr>timer_id = 0, due = 300, callback = BrightnessTimeout\<rparr>]
   \<and> 300 * length (sent (vars (run Color_handle Color_fire
                 [User (ColorSetBrightness (Num (Finite 5))), Wait 100,
                  User (ColorSetBrightness (Num (Finite 7))), Wait 300,
                  User (ColorSetHue (Num (Finite 7))), Wait 300]
                 (ColorItemController ''10,20,30'')))) \<le> 700"
  using scheduler_rate
          [of "run Color_handle Color_fire [User (ColorSetBrightness (Num (Finite 5))), Wait 100]
                (ColorItemController ''10,20,30'')"
              "ColorSetBrightness (Num (Finite 7))"
              "run Dimmer_handle Dimmer_fire [User (DimmerSetBrightness (Num (Finite 5))), Wait 100]
                (DimmerItemController ''50'')"
              "\<lparr>timer_id = 0, due = 300, callback = DimmerTimeout (Num (Finite 5))\<rparr>"
              "Num (Finite 7)" "[]" "''10,20,30''"
              "[User (ColorSetBrightness (Num (Finite 5))), Wait 100,
                  User (ColorSetBrightness (Num (Finite 7))), Wait 300,
                  User (ColorSetHue (Num (Finite 7))), Wait 300]"]
  by (simp add: DimmerItemController_def Dimmer_watch_def ColorItemController_def Dimmer_handle_unfold
        Dimmer_sendCommand_def Color_handle_unfold Color_arm_def timeout_def timeout_cancel_def
        wait_def Let_def setStates_def)

text \<open>
  Claim C1 as stated does not hold. In the dimmer controller a second submission restarts
  the timer: the timer due at 300 is replaced by one due at 400. Seven submissions spread
  over 1500 ms, 250 ms apart, send one command, not five; and in the color controller two
  submissions 1500 ms apart send two commands.
\<close>

theorem dimmer_restarts_timer_counterexample:
  "timers (run Dimmer_handle Dimmer_fire
             [User (DimmerSetBrightness (Num (Finite 5))), Wait 100]
             (DimmerItemController ''50''))
     = [\<lparr>timer_id = 0, due = 300, callback = DimmerTimeout (Num (Finite 5))\<rparr>]
   \<and> timers (run Dimmer_handle Dimmer_fire
             [User (DimmerSetBrightness (Num (Finite 5))), Wait 100,
              User (DimmerSetBrightness (Num (Finite 7)))]
             (DimmerItemController ''50''))
     = [\<lparr>timer_id = 1, due = 400, callback = DimmerTimeout (Num (Finite 7))\<rparr>]
   \<and> sent (vars (run Dimmer_handle Dimmer_fire
             [User (DimmerSetBrightness (Num (Finite 1))), Wait 250,
              User (DimmerSetBrightness (Num (Finite 2))), Wait 250,
              User (DimmerSetBrightness (Num (Finite 3))), Wait 250,
              User (DimmerSetBrightness (Num (Finite 4))), Wait 250,
              User (DimmerSetBrightness (Num (Finite 5))), Wait 250,
              User (DimmerSetBrightness (Num (Finite 6))), Wait 250,
              User (DimmerSetBrightness (Num (Finite 7))), Wait 300]
             (DimmerItemController ''50'')))
     = [(1800, Num (Finite 7))]
   \<and> sent (vars (run Color_handle Color_fire
             [User (ColorSetBrightness (Num (Finite 1))), Wait 1500,
              User (ColorSetBrightness (Num (Finite 2))), Wait 300]
             (ColorItemController ''10,20,30'')))
     = [(300, Num (Finite 1)), (1800, Num (Finite 2))]"
  by (simp add: DimmerItemController_def Dimmer_watch_def ColorItemController_def Dimmer_handle_unfold
        Dimmer_sendCommand_def Dimmer_fire_def Color_handle_unfold Color_arm_def Color_fire_def
        timeout_def timeout_cancel_def wait_def Let_def setStates_def sendCommand_def
        nanToZero_def isNaN_def ToNumber_def)


section \<open>Properties of the player controller\<close>

lemma onUp_tap_state:
  "time (vars w) = Some t0 \<Longrightarrow> now w < t0 + 300 \<Longrightarrow>
   onUp tap w = w\<lparr>vars := (vars w)\<lparr>isInterrupted := True,
                                   sent := sent (vars w) @ [(now w, Str tap)]\<rparr>\<rparr>"
  by (simp add: onUp_def sendCommand_def Let_def)

lemma hold_suppressed: "isInterrupted sc \<Longrightarrow> Player_fire t (HoldTimeout c) sc = sc"
  by (simp add: Player_fire_def)

lemma tap_cycle:
  assumes "timers w = []" "d < 300"
  shows "sent (vars (run Player_handle Player_fire
                       [User OnPrevDown, Wait d, User OnPrevUp, Wait e] w))
         = sent (vars w) @ [(now w + d, Str ''PREVIOUS'')]"
  using assms
  by (simp add: Player_handle_unfold onDown_def onUp_def timeout_def wait_def sendCommand_def
        Player_fire_def Let_def)

text \<open>
  Claim C4, as the code has it. On release less than 300 ms after the press, the
  interrupted flag is set and the tap command is sent at once; nothing else changes, the
  hold timer stays armed. When that timer fires with the flag set it sends nothing. So a
  press and a release within 300 ms, with no other hold timer armed, send the tap command
  and nothing more, however long one waits afterwards.
\<close>

theorem release_before_threshold:
  "(time (vars w) = Some t0 \<and> now w < t0 + 300 \<longrightarrow>
      onUp tap w = w\<lparr>vars := (vars w)\<lparr>isInterrupted := True,
                                      sent := sent (vars w) @ [(now w, Str tap)]\<rparr>\<rparr>)
   \<and> (isInterrupted sc \<longrightarrow> Player_fire t (HoldTimeout c) sc = sc)
   \<and> (timers v = [] \<and> d < 300 \<longrightarrow>
        sent (vars (run Player_handle Player_fire
                      [User OnPrevDown, Wait d, User OnPrevUp, Wait e] v))
          = sent (vars v) @ [(now v + d, Str ''PREVIOUS'')])"
  using onUp_tap_state [of w t0 tap] hold_suppressed [of sc t c] tap_cycle [of v d e]
  by blast

theorem release_before_threshold_witness:
  "sent (vars (run Player_handle Player_fire
                 [User OnPrevDown, Wait 100, User OnPrevUp, Wait 500]
                 (PlayerItemController ''PAUSE'')))
     = [(100, Str ''PREVIOUS'')]
   \<and> timers (onUp ''NEXT''
              (run Player_handle Player_fire [User OnNextDown, Wait 100]
                 (PlayerItemController ''PAUSE'')))
     = [\<lparr>timer_id = 0, due = 300, callback = HoldTimeout ''FASTFORWARD''\<rparr>]"
  using release_before_threshold
          [of "run Player_handle Player_fire [User OnNextDown, Wait 100]
                 (PlayerItemController ''PAUSE'')" 0 "''NEXT''"
              "\<lparr>item_state = ''PAUSE'', sent = [], isInterrupted = True, time = Some 0\<rparr>"
              0 "''REWIND''" "PlayerItemController ''PAUSE''" 100 500]
  by (simp add: PlayerItemController_def Player_handle_unfold onDown_def timeout_def wait_def)

text \<open>
  Claim C4 as stated does not hold: the hold timer is not cancelled by the release. It is
  still armed after it, and when the control is pressed again before the timer is due, the
  flag is cleared and the timer of the first press sends the hold command.
\<close>

theorem hold_timer_not_cancelled_counterexample:
  "timers (run Player_handle Player_fire [User OnPrevDown, Wait 100, User OnPrevUp]
             (PlayerItemController ''PAUSE''))
     = [\<lparr>timer_id = 0, due = 300, callback = HoldTimeout ''REWIND''\<rparr>]
   \<and> sent (vars (run Player_handle Player_fire
                   [User OnPrevDown, Wait 100, User OnPrevUp, Wait 100, User OnPrevDown, Wait 100]
                   (PlayerItemController ''PAUSE'')))
     = [(100, Str ''PREVIOUS''), (300, Str ''REWIND'')]"
  by (simp add: PlayerItemController_def Player_handle_unfold onDown_def onUp_def timeout_def
        wait_def sendCommand_def Player_fire_def Let_def)

text \<open>
  Claim C5 fails on the code at a double tap: press, release after 100 ms, press again
  100 ms later and release after another 150 ms. In the second cycle, which lasts 150 ms,
  the hold timer of the first press sends the hold command at 300 and the release sends
  the tap command at 350: both variants in one cycle.
\<close>

theorem second_press_emits_hold_and_tap:
  "sent (vars (run Player_handle Player_fire
                 [User OnPrevDown, Wait 100, User OnPrevUp, Wait 100,
                  User OnPrevDown, Wait 150, User OnPrevUp, Wait 300]
                 (PlayerItemController ''PAUSE'')))
     = [(100, Str ''PREVIOUS''), (300, Str ''REWIND''), (350, Str ''PREVIOUS'')]"
  by (simp add: PlayerItemController_def Player_handle_unfold onDown_def onUp_def timeout_def
        wait_def sendCommand_def Player_fire_def Let_def)

text \<open>
  A cycle on its own behaves as the claim says: a tap sends the tap command only, a hold
  sends the hold command at 300 ms and the settle command on release.
\<close>

lemma isolated_cycles:
  "sent (vars (run Player_handle Player_fire [User OnPrevDown, Wait 100, User OnPrevUp, Wait 300]
                 (PlayerItemController ''PAUSE'')))
     = [(100, Str ''PREVIOUS'')]
   \<and> sent (vars (run Player_handle Player_fire [User OnPrevDown, Wait 400, User OnPrevUp, Wait 0]
                 (PlayerItemController ''PAUSE'')))
     = [(300, Str ''REWIND''), (400, Str ''PLAY'')]"
  by (simp add: PlayerItemController_def Player_handle_unfold onDown_def onUp_def timeout_def
        wait_def sendCommand_def Player_fire_def Let_def)


end
